theory Spec2Isabelle
  imports Main
begin


section \<open>Frontend.h: MTA script types\<close>

text \<open>
  \<^verbatim>\<open>enum class MTAScriptType : uint8_t { Server = 1, Client, Shared };\<close>
\<close>

datatype MTAScriptType = Server | Client | Shared

text \<open>
  \<^verbatim>\<open>return rhsType == MTAScriptType::Shared || lhsType == MTAScriptType::Shared || lhsType == rhsType;\<close>
\<close>

definition IsMTAScriptTypeMatched :: "MTAScriptType \<Rightarrow> MTAScriptType \<Rightarrow> bool" where
  "IsMTAScriptTypeMatched lhsType rhsType =
     (rhsType = Shared \<or> lhsType = Shared \<or> lhsType = rhsType)"

section \<open>CLI/Compile.cpp: the compile format switch\<close>

datatype CompileFormat =
    Text
  | Binary
  | Remarks
  | Codegen
  | CodegenAsm
  | CodegenIr
  | CodegenVerbose
  | CodegenNull
  | Null

text \<open>
  A C string is modelled by the bytes before its terminating NUL.  \<open>strcmp\<close> compares two
  strings byte by byte as unsigned chars and returns the difference at the first position
  where they differ (the end of a string reads as the byte 0).
\<close>

fun strcmp :: "string \<Rightarrow> string \<Rightarrow> int" where
  "strcmp [] [] = 0"
| "strcmp [] (y # ys) = - int (of_char y)"
| "strcmp (x # xs) [] = int (of_char x)"
| "strcmp (x # xs) (y # ys) =
     (if x = y then strcmp xs ys else int (of_char x) - int (of_char y))"

text \<open>The chain of comparisons of \<open>getCompileFormat\<close>, branch for branch, the second
  \<open>"text"\<close> branch included.\<close>

definition getCompileFormat :: "string \<Rightarrow> CompileFormat option" where
  "getCompileFormat name =
     (if strcmp name ''text'' = 0 then Some Text
      else if strcmp name ''binary'' = 0 then Some Binary
      else if strcmp name ''text'' = 0 then Some Text
      else if strcmp name ''remarks'' = 0 then Some Remarks
      else if strcmp name ''codegen'' = 0 then Some Codegen
      else if strcmp name ''codegenasm'' = 0 then Some CodegenAsm
      else if strcmp name ''codegenir'' = 0 then Some CodegenIr
      else if strcmp name ''codegenverbose'' = 0 then Some CodegenVerbose
      else if strcmp name ''codegennull'' = 0 then Some CodegenNull
      else if strcmp name ''null'' = 0 then Some Null
      else None)"

text \<open>The folded switch the specification asks for: the same chain with the duplicate
  \<open>"text"\<close> branch removed.\<close>

definition getCompileFormat_folded :: "string \<Rightarrow> CompileFormat option" where
  "getCompileFormat_folded name =
     (if strcmp name ''text'' = 0 then Some Text
      else if strcmp name ''binary'' = 0 then Some Binary
      else if strcmp name ''remarks'' = 0 then Some Remarks
      else if strcmp name ''codegen'' = 0 then Some Codegen
      else if strcmp name ''codegenasm'' = 0 then Some CodegenAsm
      else if strcmp name ''codegenir'' = 0 then Some CodegenIr
      else if strcmp name ''codegenverbose'' = 0 then Some CodegenVerbose
      else if strcmp name ''codegennull'' = 0 then Some CodegenNull
      else if strcmp name ''null'' = 0 then Some Null
      else None)"

section \<open>The type graph\<close>

text \<open>
  Modelled from the spec: the declarations of \<open>Luau/Type.h\<close>, \<open>Luau/TypePack.h\<close> and
  \<open>Luau/TypeArena.h\<close> are not among the sources, so the node kinds and their fields are
  those of section 3 of the specification, with the fields that \<open>Clone.cpp\<close> reads and
  writes.  A \<open>TypeId\<close> (a \<open>TypePackId\<close>) is a pointer to a node; all arenas share one
  address space, modelled by a list of nodes in which an address is an index.  A field that
  the source can leave as \<open>nullptr\<close>, \<open>std::nullopt\<close> or uninitialised is an option.
\<close>

type_synonym TypeId = nat
type_synonym TypePackId = nat
type_synonym Name = string
type_synonym Scope = nat

datatype Position = Position (line: nat) (column: nat)
datatype Location = Location (begin_pos: Position) (end_pos: Position)

datatype TypeLevel = TypeLevel (level: nat) (subLevel: nat)

datatype PrimitiveKind =
  PrimNil | PrimBoolean | PrimNumber | PrimString | PrimThread | PrimFunction | PrimTable

datatype SingletonVariant = StringSingleton string | BooleanSingleton bool

datatype TableState = Unsealed | Sealed | Free | Generic

record Property =
  readTy :: "TypeId option"
  writeTy :: "TypeId option"
  deprecated :: bool
  deprecatedSuggestion :: string
  prop_location :: "Location option"
  prop_tags :: "string list"
  prop_documentationSymbol :: "string option"

record TableIndexer =
  indexType :: TypeId
  indexResultType :: TypeId

record FunctionType =
  fn_level :: TypeLevel
  generics :: "TypeId list"
  genericPacks :: "TypePackId list"
  argTypes :: "TypePackId option"
  retTypes :: "TypePackId option"
  argNames :: "(string option) list"
  fn_tags :: "string list"
  definition_info :: "string option"
  hasSelf :: bool
  hasNoFreeOrGenericTypes :: bool

record TableType =
  props :: "(Name \<times> Property) list"
  indexer :: "TableIndexer option"
  state :: TableState
  tbl_level :: TypeLevel
  boundTo :: "TypeId option"
  instantiatedTypeParams :: "TypeId list"
  instantiatedTypePackParams :: "TypePackId list"
  definitionModuleName :: string
  definitionLocation :: Location
  tbl_tags :: "string list"

record ClassType =
  cls_name :: Name
  cls_props :: "(Name \<times> Property) list"
  parent :: "TypeId option"
  metatable :: "TypeId option"
  cls_tags :: "string list"
  userData :: "nat option"
  cls_definitionModuleName :: string
  cls_indexer :: "TableIndexer option"

datatype TypeVariant =
    FreeTypeV "Scope option" TypeLevel
  | GenericTypeV Name "Scope option"
  | BoundTypeV TypeId
  | ErrorTypeV
  | BlockedTypeV nat
  | PendingExpansionTypeV "string option" Name "TypeId list" "TypePackId list"
  | PrimitiveTypeV PrimitiveKind
  | SingletonTypeV SingletonVariant
  | FunctionTypeV FunctionType
  | TableTypeV TableType
  | MetatableTypeV "TypeId option" "TypeId option"
  | ClassTypeV ClassType
  | AnyTypeV
  | UnionTypeV "TypeId list"
  | IntersectionTypeV "TypeId list"
  | LazyTypeV "TypeId option"
  | UnknownTypeV
  | NeverTypeV
  | NegationTypeV TypeId
  | TypeFamilyInstanceTypeV nat "TypeId list" "TypePackId list"

datatype TypePackVariant =
    FreeTypePackV "Scope option"
  | GenericTypePackV Name
  | BoundTypePackV TypePackId
  | ErrorTypePackV
  | BlockedTypePackV nat
  | VariadicTypePackV TypeId bool
  | TypePackV "TypeId list" "TypePackId option"
  | TypeFamilyInstanceTypePackV nat "TypeId list" "TypePackId list"

record Type =
  Type_ty :: TypeVariant
  persistent :: bool
  documentationSymbol :: "string option"

record TypePackVar =
  TypePackVar_ty :: TypePackVariant
  tp_persistent :: bool

text \<open>The nodes of all arenas.  \<open>addType\<close> and \<open>addTypePack\<close> allocate at the end, so a
  new address is always fresh and existing addresses stay valid.\<close>

record Heap =
  types :: "Type list"
  typePacks :: "TypePackVar list"

definition lookupTypeNode :: "Heap \<Rightarrow> TypeId \<Rightarrow> Type option" where
  "lookupTypeNode h t = (if t < length (types h) then Some (types h ! t) else None)"

definition lookupPackNode :: "Heap \<Rightarrow> TypePackId \<Rightarrow> TypePackVar option" where
  "lookupPackNode h p = (if p < length (typePacks h) then Some (typePacks h ! p) else None)"

text \<open>\<open>TypeArena::addType\<close>: a new node, not persistent, without documentation symbol.\<close>

definition addType :: "TypeVariant \<Rightarrow> Heap \<Rightarrow> TypeId \<times> Heap" where
  "addType v h =
     (length (types h),
      h\<lparr>types := types h @ [\<lparr>Type_ty = v, persistent = False, documentationSymbol = None\<rparr>]\<rparr>)"

definition addTypePack :: "TypePackVariant \<Rightarrow> Heap \<Rightarrow> TypePackId \<times> Heap" where
  "addTypePack v h =
     (length (typePacks h),
      h\<lparr>typePacks := typePacks h @ [\<lparr>TypePackVar_ty = v, tp_persistent = False\<rparr>]\<rparr>)"

text \<open>\<open>get<T>(ty)\<close> reads the variant stored at a node; an address without a node has
  none.\<close>

definition getVariant :: "Heap \<Rightarrow> TypeId \<Rightarrow> TypeVariant option" where
  "getVariant h t = map_option Type_ty (lookupTypeNode h t)"

section \<open>Clone.cpp: the cloner\<close>

subsection \<open>Flags, the clone state and the arena\<close>

text \<open>The fast flags and the fast integer that \<open>Clone.cpp\<close> reads.\<close>

record FFlags =
  DebugLuauCopyBeforeNormalizing :: bool
  DebugLuauReadWriteProperties :: bool
  LuauTypecheckClassTypeIndexers :: bool
  LuauCloneCyclicUnions :: bool
  LuauTypeCloneRecursionLimit :: int

text \<open>The defaults that \<open>Clone.cpp\<close> declares: \<open>LuauTypeCloneRecursionLimit\<close> is 300 and
  \<open>LuauCloneCyclicUnions\<close> is off; the flags declared elsewhere are taken as off.\<close>

definition defaultFlags :: FFlags where
  "defaultFlags =
     \<lparr>DebugLuauCopyBeforeNormalizing = False, DebugLuauReadWriteProperties = False,
      LuauTypecheckClassTypeIndexers = False, LuauCloneCyclicUnions = False,
      LuauTypeCloneRecursionLimit = 300\<rparr>"

text \<open>
  What a call of \<open>clone\<close> works on: the nodes, the addresses that the destination arena
  owns (in the order of allocation), and the \<open>CloneState\<close>.  In \<open>seenTypes\<close> and
  \<open>seenTypePacks\<close> an absent key and a key bound to \<open>nullptr\<close> are both \<open>None\<close>.
\<close>

record CloneWorld =
  cw_heap :: Heap
  destTypes :: "TypeId list"
  destTypePacks :: "TypePackId list"
  seenTypes :: "TypeId \<Rightarrow> TypeId option"
  seenTypePacks :: "TypePackId \<Rightarrow> TypePackId option"
  recursionCount :: int

text \<open>
  How a call ends: it returns a value (\<open>Ok\<close>), it is left without returning
  (\<open>Throw\<close>, with the state at that point), or the model's fuel, which bounds the
  depth of nested \<open>clone\<close> calls, is used up (\<open>OutOfFuel\<close>).  \<open>LimiterExit\<close> is a call
  left because the constructor of its \<open>RecursionLimiter\<close> did not return, \<open>InvalidPointer\<close>
  the dereference of an address that holds no node, \<open>LuauAssertion\<close> a failed
  \<open>LUAU_ASSERT\<close>.
\<close>

datatype exn = LimiterExit | LuauAssertion | InvalidPointer

datatype 'a cres = OutOfFuel | Throw exn CloneWorld | Ok 'a CloneWorld

definition cbind :: "'a cres \<Rightarrow> ('a \<Rightarrow> CloneWorld \<Rightarrow> 'b cres) \<Rightarrow> 'b cres" where
  "cbind m f = (case m of OutOfFuel \<Rightarrow> OutOfFuel | Throw e w \<Rightarrow> Throw e w | Ok x w \<Rightarrow> f x w)"

text \<open>\<open>dest.addType\<close> and \<open>dest.addTypePack\<close>.\<close>

definition destAddType :: "TypeVariant \<Rightarrow> CloneWorld \<Rightarrow> TypeId \<times> CloneWorld" where
  "destAddType v w =
     (let (a, h) = addType v (cw_heap w) in (a, w\<lparr>cw_heap := h, destTypes := destTypes w @ [a]\<rparr>))"

definition destAddTypePack :: "TypePackVariant \<Rightarrow> CloneWorld \<Rightarrow> TypePackId \<times> CloneWorld" where
  "destAddTypePack v w =
     (let (a, h) = addTypePack v (cw_heap w)
      in (a, w\<lparr>cw_heap := h, destTypePacks := destTypePacks w @ [a]\<rparr>))"

definition setSeenType :: "TypeId \<Rightarrow> TypeId \<Rightarrow> CloneWorld \<Rightarrow> CloneWorld" where
  "setSeenType typeId cloned w = w\<lparr>seenTypes := (seenTypes w)(typeId \<mapsto> cloned)\<rparr>"

definition setSeenTypePack :: "TypePackId \<Rightarrow> TypePackId \<Rightarrow> CloneWorld \<Rightarrow> CloneWorld" where
  "setSeenTypePack typePackId cloned w = w\<lparr>seenTypePacks := (seenTypePacks w)(typePackId \<mapsto> cloned)\<rparr>"

text \<open>A write through a pointer obtained by \<open>getMutable\<close> or \<open>asMutable\<close>: the variant
  stored at the address is replaced.\<close>

definition updType :: "TypeId \<Rightarrow> (TypeVariant \<Rightarrow> TypeVariant) \<Rightarrow> CloneWorld \<Rightarrow> CloneWorld" where
  "updType a f w =
     w\<lparr>cw_heap := (cw_heap w)
          \<lparr>types := (types (cw_heap w))
             [a := (types (cw_heap w) ! a)\<lparr>Type_ty := f (Type_ty (types (cw_heap w) ! a))\<rparr>]\<rparr>\<rparr>"

definition updTypePack :: "TypePackId \<Rightarrow> (TypePackVariant \<Rightarrow> TypePackVariant) \<Rightarrow> CloneWorld \<Rightarrow> CloneWorld" where
  "updTypePack a f w =
     w\<lparr>cw_heap := (cw_heap w)
          \<lparr>typePacks := (typePacks (cw_heap w))
             [a := (typePacks (cw_heap w) ! a)
                     \<lparr>TypePackVar_ty := f (TypePackVar_ty (typePacks (cw_heap w) ! a))\<rparr>]\<rparr>\<rparr>"

definition updFunction :: "TypeId \<Rightarrow> (FunctionType \<Rightarrow> FunctionType) \<Rightarrow> CloneWorld \<Rightarrow> CloneWorld" where
  "updFunction a g = updType a (\<lambda>v. case v of FunctionTypeV f \<Rightarrow> FunctionTypeV (g f) | _ \<Rightarrow> v)"

definition updTable :: "TypeId \<Rightarrow> (TableType \<Rightarrow> TableType) \<Rightarrow> CloneWorld \<Rightarrow> CloneWorld" where
  "updTable a g = updType a (\<lambda>v. case v of TableTypeV t \<Rightarrow> TableTypeV (g t) | _ \<Rightarrow> v)"

definition updClass :: "TypeId \<Rightarrow> (ClassType \<Rightarrow> ClassType) \<Rightarrow> CloneWorld \<Rightarrow> CloneWorld" where
  "updClass a g = updType a (\<lambda>v. case v of ClassTypeV c \<Rightarrow> ClassTypeV (g c) | _ \<Rightarrow> v)"

text \<open>\<open>props[name] = p\<close> on the ordered map of properties.\<close>

fun assignProp :: "Name \<Rightarrow> Property \<Rightarrow> (Name \<times> Property) list \<Rightarrow> (Name \<times> Property) list" where
  "assignProp name p [] = [(name, p)]"
| "assignProp name p ((k, v) # ps) =
     (if k = name then (k, p) # ps else (k, v) # assignProp name p ps)"

text \<open>The vectors that the cloners fill with \<open>push_back\<close>, one clone at a time.\<close>

datatype TypeVector =
  FunctionGenerics | IntersectionParts | FamilyTypeArguments | PackHead | PackFamilyTypeArguments

datatype PackVector = FunctionGenericPacks | FamilyPackArguments | PackFamilyPackArguments

definition pushType :: "TypeVector \<Rightarrow> nat \<Rightarrow> TypeId \<Rightarrow> CloneWorld \<Rightarrow> CloneWorld" where
  "pushType vec a x w =
     (case vec of
        FunctionGenerics \<Rightarrow> updFunction a (\<lambda>f. f\<lparr>generics := generics f @ [x]\<rparr>) w
      | IntersectionParts \<Rightarrow>
          updType a (\<lambda>v. case v of IntersectionTypeV ps \<Rightarrow> IntersectionTypeV (ps @ [x]) | _ \<Rightarrow> v) w
      | FamilyTypeArguments \<Rightarrow>
          updType a (\<lambda>v. case v of TypeFamilyInstanceTypeV fam ts ps \<Rightarrow> TypeFamilyInstanceTypeV fam (ts @ [x]) ps
                          | _ \<Rightarrow> v) w
      | PackHead \<Rightarrow>
          updTypePack a (\<lambda>v. case v of TypePackV h rest \<Rightarrow> TypePackV (h @ [x]) rest | _ \<Rightarrow> v) w
      | PackFamilyTypeArguments \<Rightarrow>
          updTypePack a (\<lambda>v. case v of TypeFamilyInstanceTypePackV fam ts ps \<Rightarrow>
                                         TypeFamilyInstanceTypePackV fam (ts @ [x]) ps
                              | _ \<Rightarrow> v) w)"

definition pushPack :: "PackVector \<Rightarrow> nat \<Rightarrow> TypePackId \<Rightarrow> CloneWorld \<Rightarrow> CloneWorld" where
  "pushPack vec a x w =
     (case vec of
        FunctionGenericPacks \<Rightarrow> updFunction a (\<lambda>f. f\<lparr>genericPacks := genericPacks f @ [x]\<rparr>) w
      | FamilyPackArguments \<Rightarrow>
          updType a (\<lambda>v. case v of TypeFamilyInstanceTypeV fam ts ps \<Rightarrow> TypeFamilyInstanceTypeV fam ts (ps @ [x])
                          | _ \<Rightarrow> v) w
      | PackFamilyPackArguments \<Rightarrow>
          updTypePack a (\<lambda>v. case v of TypeFamilyInstanceTypePackV fam ts ps \<Rightarrow>
                                         TypeFamilyInstanceTypePackV fam ts (ps @ [x])
                              | _ \<Rightarrow> v) w)"

text \<open>The two maps of properties that are assigned name by name.\<close>

datatype PropsOwner = TableProps | ClassProps

definition assignPropOf :: "PropsOwner \<Rightarrow> TypeId \<Rightarrow> Name \<Rightarrow> Property \<Rightarrow> CloneWorld \<Rightarrow> CloneWorld" where
  "assignPropOf owner a name p w =
     (case owner of
        TableProps \<Rightarrow> updTable a (\<lambda>t. t\<lparr>props := assignProp name p (props t)\<rparr>) w
      | ClassProps \<Rightarrow> updClass a (\<lambda>c. c\<lparr>cls_props := assignProp name p (cls_props c)\<rparr>) w)"

text \<open>
  Modelled from the spec: \<open>Property::create\<close> and \<open>Property::type\<close> (\<open>Luau/Type.h\<close>) are
  not among the sources.  By section 3 a property is either a single read/write type or a
  separately tracked read-only or write-only type: \<open>create\<close> accepts a read type alone, a
  write type alone, or the same type for both, and nothing else.
\<close>

definition Property_create :: "TypeId option \<Rightarrow> TypeId option \<Rightarrow> Property option" where
  "Property_create r wr =
     (if (r \<noteq> None \<and> wr = None) \<or> (r = None \<and> wr \<noteq> None) \<or> (r \<noteq> None \<and> r = wr)
      then Some \<lparr>readTy = r, writeTy = wr, deprecated = False, deprecatedSuggestion = [],
                 prop_location = None, prop_tags = [], prop_documentationSymbol = None\<rparr>
      else None)"

text \<open>
  Both \<open>clone\<close> overloads declare the local object
  \<^verbatim>\<open>RecursionLimiter _ra(&cloneState.recursionCount, FInt::LuauTypeCloneRecursionLimit)\<close>.
  Its class (\<open>Luau/RecursionCounter.h\<close>) is not among the sources, so what it does is a
  parameter of the model, and every theorem on the cloner that names no particular limiter
  holds for all of them.  The constructor is given the limit and the counter: it returns
  and leaves the counter at some value (\<open>Inr\<close>), or it does not return, the call of
  \<open>clone\<close> is left with it, and the counter stays at some value (\<open>Inl\<close>).  The destructor
  runs when the scope of a constructed object is left, by \<open>return\<close> or otherwise; it sets
  the counter from the limit, the counter as the constructor found it, and the counter as
  it stands.
\<close>

record Limiter =
  construct :: "int \<Rightarrow> int \<Rightarrow> int + int"
  destruct :: "int \<Rightarrow> int \<Rightarrow> int \<Rightarrow> int"

text \<open>The declaration of \<open>_ra\<close> and the end of its scope.\<close>

definition RecursionLimiter_enter :: "Limiter \<Rightarrow> FFlags \<Rightarrow> CloneWorld \<Rightarrow> CloneWorld + CloneWorld" where
  "RecursionLimiter_enter lim ff w =
     (case construct lim (LuauTypeCloneRecursionLimit ff) (recursionCount w) of
        Inl c \<Rightarrow> Inl (w\<lparr>recursionCount := c\<rparr>)
      | Inr c \<Rightarrow> Inr (w\<lparr>recursionCount := c\<rparr>))"

definition RecursionLimiter_leave :: "Limiter \<Rightarrow> FFlags \<Rightarrow> int \<Rightarrow> 'a cres \<Rightarrow> 'a cres" where
  "RecursionLimiter_leave lim ff entered r =
     (case r of
        OutOfFuel \<Rightarrow> OutOfFuel
      | Throw e w \<Rightarrow>
          Throw e (w\<lparr>recursionCount :=
                       destruct lim (LuauTypeCloneRecursionLimit ff) entered (recursionCount w)\<rparr>)
      | Ok x w \<Rightarrow>
          Ok x (w\<lparr>recursionCount :=
                    destruct lim (LuauTypeCloneRecursionLimit ff) entered (recursionCount w)\<rparr>))"

text \<open>\<open>defaultClone\<close> of the two cloners: a copy of the variant in the destination arena,
  entered in the seen map.\<close>

definition TypeCloner_defaultClone :: "TypeId \<Rightarrow> TypeVariant \<Rightarrow> CloneWorld \<Rightarrow> unit cres" where
  "TypeCloner_defaultClone typeId t w =
     (let (cloned, w1) = destAddType t w in Ok () (setSeenType typeId cloned w1))"

definition TypePackCloner_defaultClone :: "TypePackId \<Rightarrow> TypePackVariant \<Rightarrow> CloneWorld \<Rightarrow> unit cres" where
  "TypePackCloner_defaultClone typePackId t w =
     (let (cloned, w1) = destAddTypePack t w in Ok () (setSeenTypePack typePackId cloned w1))"

text \<open>The function type that \<open>TypeCloner\<close> allocates for a function: level zero, no
  generics, no packs yet, the definition and \<open>hasSelf\<close> of the source.\<close>

definition freshFunction :: "FunctionType \<Rightarrow> FunctionType" where
  "freshFunction f =
     \<lparr>fn_level = TypeLevel 0 0, generics = [], genericPacks = [], argTypes = None, retTypes = None,
      argNames = [], fn_tags = [], definition_info = definition_info f, hasSelf = hasSelf f,
      hasNoFreeOrGenericTypes = False\<rparr>"

definition freshClass :: "ClassType \<Rightarrow> ClassType" where
  "freshClass c =
     \<lparr>cls_name = cls_name c, cls_props = [], parent = None, metatable = None, cls_tags = cls_tags c,
      userData = userData c, cls_definitionModuleName = cls_definitionModuleName c,
      cls_indexer = None\<rparr>"

subsection \<open>The loops and helpers of the visitors\<close>

text \<open>
  The visitors and their helpers call the two public \<open>clone\<close> overloads.  In the model
  these two nested calls are the parameters \<open>cloneTy\<close> and \<open>cloneTp\<close>; the recursion is
  closed below.  The loops are \<open>cloneTypes\<close> / \<open>clonePacks\<close> (clones collected in a local
  vector), \<open>cloneTypesInto\<close> / \<open>clonePacksInto\<close> (each clone pushed onto a vector of the
  new node), \<open>clonePropsInto\<close> (each cloned property assigned under its name) and
  \<open>cloneTypeParams\<close> / \<open>clonePackParams\<close> (the elements of a vector of the new table
  replaced in place, from index \<open>i\<close> on).
\<close>

type_synonym cloneTyFn = "TypeId \<Rightarrow> CloneWorld \<Rightarrow> TypeId cres"
type_synonym cloneTpFn = "TypePackId \<Rightarrow> CloneWorld \<Rightarrow> TypePackId cres"

primrec cloneTypes :: "cloneTyFn \<Rightarrow> TypeId list \<Rightarrow> CloneWorld \<Rightarrow> TypeId list cres" where
  "cloneTypes cloneTy [] w = Ok [] w"
| "cloneTypes cloneTy (t # ts) w =
     cbind (cloneTy t w) (\<lambda>t' w1.
     cbind (cloneTypes cloneTy ts w1) (\<lambda>ts' w2. Ok (t' # ts') w2))"

primrec clonePacks :: "cloneTpFn \<Rightarrow> TypePackId list \<Rightarrow> CloneWorld \<Rightarrow> TypePackId list cres" where
  "clonePacks cloneTp [] w = Ok [] w"
| "clonePacks cloneTp (p # ps) w =
     cbind (cloneTp p w) (\<lambda>p' w1.
     cbind (clonePacks cloneTp ps w1) (\<lambda>ps' w2. Ok (p' # ps') w2))"

primrec cloneTypesInto :: "cloneTyFn \<Rightarrow> TypeVector \<Rightarrow> nat \<Rightarrow> TypeId list \<Rightarrow> CloneWorld \<Rightarrow> unit cres" where
  "cloneTypesInto cloneTy vec a [] w = Ok () w"
| "cloneTypesInto cloneTy vec a (t # ts) w =
     cbind (cloneTy t w) (\<lambda>t' w1. cloneTypesInto cloneTy vec a ts (pushType vec a t' w1))"

primrec clonePacksInto :: "cloneTpFn \<Rightarrow> PackVector \<Rightarrow> nat \<Rightarrow> TypePackId list \<Rightarrow> CloneWorld \<Rightarrow> unit cres" where
  "clonePacksInto cloneTp vec a [] w = Ok () w"
| "clonePacksInto cloneTp vec a (p # ps) w =
     cbind (cloneTp p w) (\<lambda>p' w1. clonePacksInto cloneTp vec a ps (pushPack vec a p' w1))"

text \<open>\<open>clone(const Property&, ...)\<close>.  Without read/write properties the constructor
  \<open>Property{type, ...}\<close> takes the clone of \<open>prop.type()\<close>, which asserts that the read
  type is there, as the read and the write type.\<close>

definition clone_Property :: "FFlags \<Rightarrow> cloneTyFn \<Rightarrow> Property \<Rightarrow> CloneWorld \<Rightarrow> Property cres" where
  "clone_Property ff cloneTy prop w =
     (if DebugLuauReadWriteProperties ff then
        cbind (case readTy prop of
                 Some t \<Rightarrow> cbind (cloneTy t w) (\<lambda>t' w1. Ok (Some t') w1)
               | None \<Rightarrow> Ok None w) (\<lambda>cloneReadTy w1.
        cbind (case writeTy prop of
                 Some t \<Rightarrow> cbind (cloneTy t w1) (\<lambda>t' w2. Ok (Some t') w2)
               | None \<Rightarrow> Ok None w1) (\<lambda>cloneWriteTy w2.
          case Property_create cloneReadTy cloneWriteTy of
            None \<Rightarrow> Throw LuauAssertion w2
          | Some cloned \<Rightarrow>
              Ok (cloned\<lparr>deprecated := deprecated prop,
                         deprecatedSuggestion := deprecatedSuggestion prop,
                         prop_location := prop_location prop,
                         prop_tags := prop_tags prop,
                         prop_documentationSymbol := prop_documentationSymbol prop\<rparr>) w2))
      else
        (case readTy prop of
           None \<Rightarrow> Throw LuauAssertion w
         | Some t \<Rightarrow>
             cbind (cloneTy t w)
               (\<lambda>t' w1. Ok (prop\<lparr>readTy := Some t', writeTy := Some t'\<rparr>) w1)))"

primrec clonePropsInto ::
  "FFlags \<Rightarrow> cloneTyFn \<Rightarrow> PropsOwner \<Rightarrow> TypeId \<Rightarrow> (Name \<times> Property) list \<Rightarrow> CloneWorld \<Rightarrow> unit cres" where
  "clonePropsInto ff cloneTy owner a [] w = Ok () w"
| "clonePropsInto ff cloneTy owner a (np # ps) w =
     cbind (clone_Property ff cloneTy (snd np) w)
       (\<lambda>prop' w1. clonePropsInto ff cloneTy owner a ps (assignPropOf owner a (fst np) prop' w1))"

text \<open>\<open>clone(const TableIndexer&, ...)\<close>, and the same two calls written out in the other
  branch of the table cloner.  Its \<open>LUAU_ASSERT\<close> on \<open>LuauTypecheckClassTypeIndexers\<close>
  holds at both of its call sites, which are under that flag.\<close>

definition clone_TableIndexer :: "cloneTyFn \<Rightarrow> TableIndexer \<Rightarrow> CloneWorld \<Rightarrow> TableIndexer cres" where
  "clone_TableIndexer cloneTy ix w =
     cbind (cloneTy (indexType ix) w) (\<lambda>k w1.
     cbind (cloneTy (indexResultType ix) w1) (\<lambda>v w2.
       Ok \<lparr>indexType = k, indexResultType = v\<rparr> w2))"

primrec cloneTypeParams :: "cloneTyFn \<Rightarrow> TypeId \<Rightarrow> TypeId list \<Rightarrow> nat \<Rightarrow> CloneWorld \<Rightarrow> unit cres" where
  "cloneTypeParams cloneTy a [] i w = Ok () w"
| "cloneTypeParams cloneTy a (arg # args) i w =
     cbind (cloneTy arg w)
       (\<lambda>arg' w1.
          cloneTypeParams cloneTy a args (Suc i)
            (updTable a (\<lambda>t. t\<lparr>instantiatedTypeParams := (instantiatedTypeParams t)[i := arg']\<rparr>) w1))"

primrec clonePackParams :: "cloneTpFn \<Rightarrow> TypeId \<Rightarrow> TypePackId list \<Rightarrow> nat \<Rightarrow> CloneWorld \<Rightarrow> unit cres" where
  "clonePackParams cloneTp a [] i w = Ok () w"
| "clonePackParams cloneTp a (arg # args) i w =
     cbind (cloneTp arg w)
       (\<lambda>arg' w1.
          clonePackParams cloneTp a args (Suc i)
            (updTable a (\<lambda>t. t\<lparr>instantiatedTypePackParams := (instantiatedTypePackParams t)[i := arg']\<rparr>) w1))"

subsection \<open>The visitors\<close>

text \<open>\<open>TypeCloner\<close>, one equation per \<open>operator()\<close>; \<open>typeId\<close> is the type being cloned.
  For a table, \<open>dest.addType(TableType{})\<close> followed by \<open>*ttv = t\<close> is the allocation of a
  copy of \<open>t\<close>.\<close>

fun TypeCloner :: "FFlags \<Rightarrow> cloneTyFn \<Rightarrow> cloneTpFn \<Rightarrow> TypeId \<Rightarrow> TypeVariant \<Rightarrow> CloneWorld \<Rightarrow> unit cres" where
  "TypeCloner ff cloneTy cloneTp typeId (FreeTypeV sc lv) w =
     TypeCloner_defaultClone typeId (FreeTypeV sc lv) w"
| "TypeCloner ff cloneTy cloneTp typeId (GenericTypeV nm sc) w =
     TypeCloner_defaultClone typeId (GenericTypeV nm sc) w"
| "TypeCloner ff cloneTy cloneTp typeId (BoundTypeV bound) w =
     cbind (cloneTy bound w)
       (\<lambda>b w1.
          let (b', w2) = (if DebugLuauCopyBeforeNormalizing ff then destAddType (BoundTypeV b) w1
                          else (b, w1))
          in Ok () (setSeenType typeId b' w2))"
| "TypeCloner ff cloneTy cloneTp typeId ErrorTypeV w = TypeCloner_defaultClone typeId ErrorTypeV w"
| "TypeCloner ff cloneTy cloneTp typeId (BlockedTypeV i) w =
     TypeCloner_defaultClone typeId (BlockedTypeV i) w"
| "TypeCloner ff cloneTy cloneTp typeId (PendingExpansionTypeV pfx nm targs pargs) w =
     (let (res, w1) = destAddType (PendingExpansionTypeV pfx nm targs pargs) w;
          w2 = setSeenType typeId res w1
      in cbind (cloneTypes cloneTy targs w2) (\<lambda>typeArguments w3.
         cbind (clonePacks cloneTp pargs w3) (\<lambda>packArguments w4.
           Ok () (updType res
                    (\<lambda>v. case v of
                            PendingExpansionTypeV p' n' ta pa \<Rightarrow>
                              PendingExpansionTypeV p' n' typeArguments packArguments
                          | _ \<Rightarrow> v) w4))))"
| "TypeCloner ff cloneTy cloneTp typeId (PrimitiveTypeV k) w =
     TypeCloner_defaultClone typeId (PrimitiveTypeV k) w"
| "TypeCloner ff cloneTy cloneTp typeId (SingletonTypeV sv) w =
     TypeCloner_defaultClone typeId (SingletonTypeV sv) w"
| "TypeCloner ff cloneTy cloneTp typeId (FunctionTypeV f) w =
     (let (result, w1) = destAddType (FunctionTypeV (freshFunction f)) w;
          w2 = setSeenType typeId result w1
      in cbind (cloneTypesInto cloneTy FunctionGenerics result (generics f) w2) (\<lambda>u w3.
         cbind (clonePacksInto cloneTp FunctionGenericPacks result (genericPacks f) w3) (\<lambda>u w4.
           let w5 = updFunction result (\<lambda>g. g\<lparr>fn_tags := fn_tags f\<rparr>) w4
           in case argTypes f of
                None \<Rightarrow> Throw InvalidPointer w5
              | Some args \<Rightarrow>
                  cbind (cloneTp args w5) (\<lambda>args' w6.
                    let w7 = updFunction result (\<lambda>g. g\<lparr>argTypes := Some args', argNames := argNames f\<rparr>) w6
                    in case retTypes f of
                         None \<Rightarrow> Throw InvalidPointer w7
                       | Some rets \<Rightarrow>
                           cbind (cloneTp rets w7) (\<lambda>rets' w8.
                             Ok () (updFunction result
                                      (\<lambda>g. g\<lparr>retTypes := Some rets',
                                              hasNoFreeOrGenericTypes := hasNoFreeOrGenericTypes f\<rparr>) w8))))))"
| "TypeCloner ff cloneTy cloneTp typeId (TableTypeV t) w =
     (if \<not> DebugLuauCopyBeforeNormalizing ff \<and> boundTo t \<noteq> None then
        (case boundTo t of
           None \<Rightarrow> Ok () w
         | Some bt \<Rightarrow> cbind (cloneTy bt w) (\<lambda>b w1. Ok () (setSeenType typeId b w1)))
      else
        (let (result, w1) = destAddType (TableTypeV t) w;
             w2 = setSeenType typeId result w1;
             w3 = updTable result (\<lambda>g. g\<lparr>tbl_level := TypeLevel 0 0\<rparr>) w2
         in cbind (case boundTo t of
                     Some bt \<Rightarrow>
                       if DebugLuauCopyBeforeNormalizing ff then
                         cbind (cloneTy bt w3)
                           (\<lambda>b w4. Ok () (updTable result (\<lambda>g. g\<lparr>boundTo := Some b\<rparr>) w4))
                       else Ok () w3
                   | None \<Rightarrow> Ok () w3) (\<lambda>u w4.
            cbind (clonePropsInto ff cloneTy TableProps result (props t) w4) (\<lambda>u w5.
            cbind (case indexer t of
                     Some ix \<Rightarrow>
                       cbind (clone_TableIndexer cloneTy ix w5)
                         (\<lambda>ix' w6. Ok () (updTable result (\<lambda>g. g\<lparr>indexer := Some ix'\<rparr>) w6))
                   | None \<Rightarrow> Ok () w5) (\<lambda>u w6.
            cbind (cloneTypeParams cloneTy result (instantiatedTypeParams t) 0 w6) (\<lambda>u w7.
            cbind (clonePackParams cloneTp result (instantiatedTypePackParams t) 0 w7) (\<lambda>u w8.
              Ok () (updTable result
                       (\<lambda>g. g\<lparr>definitionModuleName := definitionModuleName t,
                               definitionLocation := definitionLocation t,
                               tbl_tags := tbl_tags t\<rparr>) w8))))))))"
| "TypeCloner ff cloneTy cloneTp typeId (MetatableTypeV tbl mt) w =
     (let (result, w1) = destAddType (MetatableTypeV None None) w;
          w2 = setSeenType typeId result w1
      in case tbl of
           None \<Rightarrow> Throw InvalidPointer w2
         | Some tb \<Rightarrow>
             cbind (cloneTy tb w2) (\<lambda>tb' w3.
               let w4 = updType result
                          (\<lambda>v. case v of MetatableTypeV x y \<Rightarrow> MetatableTypeV (Some tb') y | _ \<Rightarrow> v) w3
               in case mt of
                    None \<Rightarrow> Throw InvalidPointer w4
                  | Some m \<Rightarrow>
                      cbind (cloneTy m w4) (\<lambda>m' w5.
                        Ok () (updType result
                                 (\<lambda>v. case v of MetatableTypeV x y \<Rightarrow> MetatableTypeV x (Some m') | _ \<Rightarrow> v)
                                 w5))))"
| "TypeCloner ff cloneTy cloneTp typeId (ClassTypeV c) w =
     (let (result, w1) = destAddType (ClassTypeV (freshClass c)) w;
          w2 = setSeenType typeId result w1
      in cbind (clonePropsInto ff cloneTy ClassProps result (cls_props c) w2) (\<lambda>u w3.
         cbind (case parent c of
                  Some p \<Rightarrow>
                    cbind (cloneTy p w3)
                      (\<lambda>p' w4. Ok () (updClass result (\<lambda>g. g\<lparr>parent := Some p'\<rparr>) w4))
                | None \<Rightarrow> Ok () w3) (\<lambda>u w4.
         cbind (case metatable c of
                  Some m \<Rightarrow>
                    cbind (cloneTy m w4)
                      (\<lambda>m' w5. Ok () (updClass result (\<lambda>g. g\<lparr>metatable := Some m'\<rparr>) w5))
                | None \<Rightarrow> Ok () w4) (\<lambda>u w5.
           case cls_indexer c of
             Some ix \<Rightarrow>
               if LuauTypecheckClassTypeIndexers ff then
                 cbind (clone_TableIndexer cloneTy ix w5)
                   (\<lambda>ix' w6. Ok () (updClass result (\<lambda>g. g\<lparr>cls_indexer := Some ix'\<rparr>) w6))
               else Ok () w5
           | None \<Rightarrow> Ok () w5))))"
| "TypeCloner ff cloneTy cloneTp typeId AnyTypeV w = TypeCloner_defaultClone typeId AnyTypeV w"
| "TypeCloner ff cloneTy cloneTp typeId (UnionTypeV options) w =
     (if LuauCloneCyclicUnions ff then
        (let (result, w1) = destAddType (FreeTypeV None (TypeLevel 0 0)) w;
             w2 = setSeenType typeId result w1
         in cbind (cloneTypes cloneTy options w2)
              (\<lambda>options' w3. Ok () (updType result (\<lambda>v. UnionTypeV options') w3)))
      else
        cbind (cloneTypes cloneTy options w)
          (\<lambda>options' w1.
             let (result, w2) = destAddType (UnionTypeV options') w1
             in Ok () (setSeenType typeId result w2)))"
| "TypeCloner ff cloneTy cloneTp typeId (IntersectionTypeV parts) w =
     (let (result, w1) = destAddType (IntersectionTypeV []) w;
          w2 = setSeenType typeId result w1
      in cloneTypesInto cloneTy IntersectionParts result parts w2)"
| "TypeCloner ff cloneTy cloneTp typeId (LazyTypeV unwrapped) w =
     (case unwrapped of
        Some u \<Rightarrow> cbind (cloneTy u w) (\<lambda>r w1. Ok () (setSeenType typeId r w1))
      | None \<Rightarrow> TypeCloner_defaultClone typeId (LazyTypeV unwrapped) w)"
| "TypeCloner ff cloneTy cloneTp typeId UnknownTypeV w = TypeCloner_defaultClone typeId UnknownTypeV w"
| "TypeCloner ff cloneTy cloneTp typeId NeverTypeV w = TypeCloner_defaultClone typeId NeverTypeV w"
| "TypeCloner ff cloneTy cloneTp typeId (NegationTypeV t) w =
     (let (result, w1) = destAddType AnyTypeV w;
          w2 = setSeenType typeId result w1
      in cbind (cloneTy t w2)
           (\<lambda>t' w3. Ok () (updType result (\<lambda>v. NegationTypeV t') w3)))"
| "TypeCloner ff cloneTy cloneTp typeId (TypeFamilyInstanceTypeV fam targs pargs) w =
     (let (result, w1) = destAddType (TypeFamilyInstanceTypeV fam [] []) w;
          w2 = setSeenType typeId result w1
      in cbind (cloneTypesInto cloneTy FamilyTypeArguments result targs w2)
           (\<lambda>u w3. clonePacksInto cloneTp FamilyPackArguments result pargs w3))"

text \<open>\<open>TypePackCloner\<close>; \<open>typePackId\<close> is the pack being cloned.\<close>

fun TypePackCloner ::
  "FFlags \<Rightarrow> cloneTyFn \<Rightarrow> cloneTpFn \<Rightarrow> TypePackId \<Rightarrow> TypePackVariant \<Rightarrow> CloneWorld \<Rightarrow> unit cres" where
  "TypePackCloner ff cloneTy cloneTp typePackId (FreeTypePackV sc) w =
     TypePackCloner_defaultClone typePackId (FreeTypePackV sc) w"
| "TypePackCloner ff cloneTy cloneTp typePackId (GenericTypePackV nm) w =
     TypePackCloner_defaultClone typePackId (GenericTypePackV nm) w"
| "TypePackCloner ff cloneTy cloneTp typePackId ErrorTypePackV w =
     TypePackCloner_defaultClone typePackId ErrorTypePackV w"
| "TypePackCloner ff cloneTy cloneTp typePackId (BlockedTypePackV i) w =
     TypePackCloner_defaultClone typePackId (BlockedTypePackV i) w"
| "TypePackCloner ff cloneTy cloneTp typePackId (BoundTypePackV bound) w =
     cbind (cloneTp bound w)
       (\<lambda>c w1.
          let (c', w2) = (if DebugLuauCopyBeforeNormalizing ff then destAddTypePack (BoundTypePackV c) w1
                          else (c, w1))
          in Ok () (setSeenTypePack typePackId c' w2))"
| "TypePackCloner ff cloneTy cloneTp typePackId (VariadicTypePackV t hidden) w =
     cbind (cloneTy t w)
       (\<lambda>t' w1.
          let (cloned, w2) = destAddTypePack (VariadicTypePackV t' hidden) w1
          in Ok () (setSeenTypePack typePackId cloned w2))"
| "TypePackCloner ff cloneTy cloneTp typePackId (TypePackV head tail) w =
     (let (cloned, w1) = destAddTypePack (TypePackV [] None) w;
          w2 = setSeenTypePack typePackId cloned w1
      in cbind (cloneTypesInto cloneTy PackHead cloned head w2)
           (\<lambda>u w3.
              case tail of
                Some tail0 \<Rightarrow>
                  cbind (cloneTp tail0 w3)
                    (\<lambda>tail' w4.
                       Ok () (updTypePack cloned
                                (\<lambda>v. case v of TypePackV h x \<Rightarrow> TypePackV h (Some tail') | _ \<Rightarrow> v) w4))
              | None \<Rightarrow> Ok () w3))"
| "TypePackCloner ff cloneTy cloneTp typePackId (TypeFamilyInstanceTypePackV fam targs pargs) w =
     (let (cloned, w1) = destAddTypePack (TypeFamilyInstanceTypePackV fam [] []) w;
          w2 = setSeenTypePack typePackId cloned w1
      in cbind (cloneTypesInto cloneTy PackFamilyTypeArguments cloned targs w2)
           (\<lambda>u w3. clonePacksInto cloneTp PackFamilyPackArguments cloned pargs w3))"

subsection \<open>The two public overloads\<close>

text \<open>The body of \<open>clone(TypeId, TypeArena&, CloneState&)\<close>.  After the visit, \<open>res\<close> is
  the entry of \<open>seenTypes\<close> for \<open>typeId\<close>; the documentation symbol of the source node is
  copied to it unless it is persistent.\<close>

definition clone_TypeId_body :: "Limiter \<Rightarrow> FFlags \<Rightarrow> cloneTyFn \<Rightarrow> cloneTpFn \<Rightarrow> TypeId \<Rightarrow> CloneWorld \<Rightarrow> TypeId cres" where
  "clone_TypeId_body lim ff cloneTy cloneTp typeId w =
     (case lookupTypeNode (cw_heap w) typeId of
        None \<Rightarrow> Throw InvalidPointer w
      | Some node \<Rightarrow>
          if persistent node then Ok typeId w
          else
            (case RecursionLimiter_enter lim ff w of
               Inl w' \<Rightarrow> Throw LimiterExit w'
             | Inr w1 \<Rightarrow>
                 RecursionLimiter_leave lim ff (recursionCount w)
                   (case seenTypes w1 typeId of
                      Some res \<Rightarrow> Ok res w1
                    | None \<Rightarrow>
                        cbind (TypeCloner ff cloneTy cloneTp typeId (Type_ty node) w1)
                          (\<lambda>u w2.
                             case seenTypes w2 typeId of
                               None \<Rightarrow> Throw InvalidPointer w2
                             | Some res \<Rightarrow>
                                 (case lookupTypeNode (cw_heap w2) res of
                                    None \<Rightarrow> Throw InvalidPointer w2
                                  | Some resNode \<Rightarrow>
                                      if \<not> persistent resNode then
                                        (case lookupTypeNode (cw_heap w2) typeId of
                                           None \<Rightarrow> Throw InvalidPointer w2
                                         | Some src \<Rightarrow>
                                             Ok res
                                               (w2\<lparr>cw_heap := (cw_heap w2)
                                                     \<lparr>types := (types (cw_heap w2))
                                                        [res := resNode\<lparr>documentationSymbol :=
                                                                          documentationSymbol src\<rparr>]\<rparr>\<rparr>))
                                      else Ok res w2)))))"

text \<open>The body of \<open>clone(TypePackId, TypeArena&, CloneState&)\<close>.\<close>

definition clone_TypePackId_body ::
  "Limiter \<Rightarrow> FFlags \<Rightarrow> cloneTyFn \<Rightarrow> cloneTpFn \<Rightarrow> TypePackId \<Rightarrow> CloneWorld \<Rightarrow> TypePackId cres" where
  "clone_TypePackId_body lim ff cloneTy cloneTp tp w =
     (case lookupPackNode (cw_heap w) tp of
        None \<Rightarrow> Throw InvalidPointer w
      | Some node \<Rightarrow>
          if tp_persistent node then Ok tp w
          else
            (case RecursionLimiter_enter lim ff w of
               Inl w' \<Rightarrow> Throw LimiterExit w'
             | Inr w1 \<Rightarrow>
                 RecursionLimiter_leave lim ff (recursionCount w)
                   (case seenTypePacks w1 tp of
                      Some res \<Rightarrow> Ok res w1
                    | None \<Rightarrow>
                        cbind (TypePackCloner ff cloneTy cloneTp tp (TypePackVar_ty node) w1)
                          (\<lambda>u w2.
                             case seenTypePacks w2 tp of
                               None \<Rightarrow> Throw InvalidPointer w2
                             | Some res \<Rightarrow> Ok res w2))))"

text \<open>
  The recursion of the two overloads through the visitors, closed by fuel: with fuel \<open>n\<close>
  a call may nest \<open>n\<close> further \<open>clone\<close> calls inside it; a call that would nest deeper
  ends as \<open>OutOfFuel\<close>.  \<open>Inl\<close> asks for a type, \<open>Inr\<close> for a type pack.
\<close>

primrec cloneFuel :: "Limiter \<Rightarrow> FFlags \<Rightarrow> nat \<Rightarrow> TypeId + TypePackId \<Rightarrow> CloneWorld \<Rightarrow> nat cres" where
  "cloneFuel lim ff 0 =
     (\<lambda>r w. case r of
               Inl typeId \<Rightarrow> clone_TypeId_body lim ff (\<lambda>t w'. OutOfFuel) (\<lambda>p w'. OutOfFuel) typeId w
             | Inr tp \<Rightarrow> clone_TypePackId_body lim ff (\<lambda>t w'. OutOfFuel) (\<lambda>p w'. OutOfFuel) tp w)"
| "cloneFuel lim ff (Suc n) =
     (\<lambda>r w. case r of
               Inl typeId \<Rightarrow>
                 clone_TypeId_body lim ff (\<lambda>t. cloneFuel lim ff n (Inl t)) (\<lambda>p. cloneFuel lim ff n (Inr p)) typeId w
             | Inr tp \<Rightarrow>
                 clone_TypePackId_body lim ff (\<lambda>t. cloneFuel lim ff n (Inl t)) (\<lambda>p. cloneFuel lim ff n (Inr p)) tp w)"

definition clone_TypeId :: "Limiter \<Rightarrow> FFlags \<Rightarrow> nat \<Rightarrow> TypeId \<Rightarrow> CloneWorld \<Rightarrow> TypeId cres" where
  "clone_TypeId lim ff n typeId w = cloneFuel lim ff n (Inl typeId) w"

definition clone_TypePackId :: "Limiter \<Rightarrow> FFlags \<Rightarrow> nat \<Rightarrow> TypePackId \<Rightarrow> CloneWorld \<Rightarrow> TypePackId cres" where
  "clone_TypePackId lim ff n tp w = cloneFuel lim ff n (Inr tp) w"

section \<open>TypeChecker2.cpp: the post-inference validator\<close>

subsection \<open>Syntax nodes, diagnostics and the checker's state\<close>

text \<open>
  An AST node is known to the validator by its identity (the key of the module's per-node
  tables) and its source location.
\<close>

datatype AstExpr = AstExpr (expr_id: nat) (expr_location: Location)
datatype AstType = AstType (type_id: nat) (type_location: Location)

datatype ValueContext = LValue | RValue

datatype AstExprBinary_Op =
    Add | Sub | Mul | Div | Mod | Pow | Concat
  | CompareNe | CompareEq | CompareLt | CompareLe | CompareGt | CompareGe
  | And | Or

record AstExprBinary =
  bin_self :: AstExpr
  bin_op :: AstExprBinary_Op
  bin_left :: AstExpr
  bin_right :: AstExpr

record AstExprTypeAssertion =
  asr_self :: AstExpr
  asr_expr :: AstExpr
  asr_annotation :: AstType

datatype CannotExtendTable_Context = CET_Property | CET_Metatable | CET_Indexer

datatype CannotInferBinaryOperation_OpKind = Operation | Comparison

text \<open>The kinds of section 7 that the modelled functions build, and the kinds the unifier
  hands back.\<close>

datatype TypeErrorData =
    TypeMismatch TypeId TypeId
  | CountMismatch nat nat
  | UnknownSymbol Name
  | UnknownProperty TypeId Name
  | UnknownPropButFoundLikeProp TypeId Name "Name set"
  | MissingUnionProperty TypeId "TypeId list" Name
  | CannotCallNonFunction TypeId
  | OptionalValueAccess TypeId
  | CannotExtendTable TypeId CannotExtendTable_Context Name
  | NotATable TypeId
  | GenericError string
  | UnificationTooComplex
  | NormalizationTooComplex
  | CodeTooComplex
  | TypesAreUnrelated TypeId TypeId
  | CannotInferBinaryOperation AstExprBinary_Op "string option" CannotInferBinaryOperation_OpKind

datatype TypeError = TypeError (err_location: Location) (err_moduleName: string) (err_data: TypeErrorData)

text \<open>
  Modelled from the spec: \<open>BuiltinTypes\<close> (\<open>Luau/Type.h\<close>) is not among the sources; these
  are the shared primitive nodes the validator names.  \<open>errorRecoveryType()\<close> returns
  \<open>errorType\<close>.
\<close>

record BuiltinTypes =
  nilType :: TypeId
  booleanType :: TypeId
  numberType :: TypeId
  stringType :: TypeId
  functionType :: TypeId
  anyType :: TypeId
  errorType :: TypeId

text \<open>
  Modelled from the spec: \<open>NormalizedType\<close> (\<open>Luau/Normalize.h\<close>) is not among the sources;
  section 4.C gives its disjoint components.  \<open>strings_isNever\<close> is \<open>strings.isNever()\<close>,
  \<open>functions_isTop\<close>, \<open>functions_isNever\<close> and \<open>functions_parts\<close> are the fields and
  the test of \<open>functions\<close>, and \<open>exactlyNumber\<close> / \<open>subtypeOfString\<close> are the answers of
  \<open>isExactlyNumber()\<close> / \<open>isSubtypeOfString()\<close>.
\<close>

datatype NormalizedType = NormalizedType
  (tops: TypeId)
  (booleans: TypeId)
  (classes: "TypeId list")
  (errors: TypeId)
  (nils: TypeId)
  (numbers: TypeId)
  (strings_isNever: bool)
  (threads: TypeId)
  (tables: "TypeId list")
  (functions_isTop: bool)
  (functions_isNever: bool)
  (functions_parts: "TypeId list")
  (tyvars: "(TypeId \<times> NormalizedType) list")
  (exactlyNumber: bool)
  (subtypeOfString: bool)

text \<open>
  The state a visit reads and writes: the nodes (the test arena allocates among them), the
  module's error list and its table of overload-resolved types, and the errors handed to
  the logger when there is one.
\<close>

record TC =
  heap :: Heap
  module_errors :: "TypeError list"
  astOverloadResolvedTypes :: "nat \<Rightarrow> TypeId option"
  logged :: "TypeError list"

text \<open>
  How a call ends: \<open>None\<close> when it does not return (a loop that runs forever),
  \<open>Some (Inl LuauAssertFailed)\<close> when a \<open>LUAU_ASSERT\<close> fails, \<open>Some (Inr x)\<close> when it
  returns \<open>x\<close>.
\<close>

datatype failure = LuauAssertFailed

type_synonym 'a outcome = "(failure + 'a) option"

definition returns :: "'a \<Rightarrow> 'a outcome" where
  "returns x = Some (Inr x)"

definition assertFailed :: "'a outcome" where
  "assertFailed = Some (Inl LuauAssertFailed)"

definition andThen :: "'a outcome \<Rightarrow> ('a \<Rightarrow> 'b outcome) \<Rightarrow> 'b outcome" where
  "andThen m f = (case m of None \<Rightarrow> None | Some (Inl e) \<Rightarrow> Some (Inl e) | Some (Inr x) \<Rightarrow> f x)"

text \<open>
  What the validator calls but the sources do not define (the unifier, the normalizer, the
  helpers of \<open>TypeUtils\<close>, \<open>Type\<close> and \<open>TypePack\<close>, the printers, the table of
  \<open>Luau/Metamethods.h\<close> and the numbering of \<open>AstExprBinary::Op\<close>), together with the
  visits and lookups of sub-nodes, which the modelled functions use only through their
  effect on the state.  Every theorem below holds for all values of these parameters.
  \<open>Unifier_tryUnify\<close> answers with the unifier's errors and whether its log stayed empty;
  its boolean argument is \<open>hideousFixMeGenericsAreActuallyFree\<close>.
\<close>

record Env =
  builtinTypes :: BuiltinTypes
  moduleName :: string
  hasLogger :: bool
  visitExpr :: "AstExpr \<Rightarrow> ValueContext \<Rightarrow> TC \<Rightarrow> TC outcome"
  visitType :: "AstType \<Rightarrow> TC \<Rightarrow> TC outcome"
  lookupType :: "AstExpr \<Rightarrow> TC \<Rightarrow> (TypeId \<times> TC) outcome"
  lookupAnnotation :: "AstType \<Rightarrow> TC \<Rightarrow> (TypeId \<times> TC) outcome"
  checkForInternalFamily :: "TypeId \<Rightarrow> Location \<Rightarrow> TC \<Rightarrow> TC outcome"
  Unifier_tryUnify :: "Heap \<Rightarrow> Scope \<Rightarrow> Location \<Rightarrow> bool \<Rightarrow> TypeId \<Rightarrow> TypeId \<Rightarrow> TypeError list \<times> bool"
  follow :: "Heap \<Rightarrow> TypeId \<Rightarrow> TypeId"
  first :: "Heap \<Rightarrow> TypePackId option \<Rightarrow> TypeId option"
  isString :: "Heap \<Rightarrow> TypeId \<Rightarrow> bool"
  isBoolean :: "Heap \<Rightarrow> TypeId \<Rightarrow> bool"
  stripNil :: "TypeId \<Rightarrow> TC \<Rightarrow> TypeId \<times> TC"
  getMetatable :: "Heap \<Rightarrow> TypeId \<Rightarrow> TypeId option"
  findMetatableEntry :: "Heap \<Rightarrow> TypeId \<Rightarrow> string \<Rightarrow> Location \<Rightarrow> TypeId option \<times> TypeError list"
  getIdentifierOfBaseVar :: "AstExpr \<Rightarrow> string option"
  normalize :: "TypeId \<Rightarrow> TC \<Rightarrow> NormalizedType option \<times> TC"
  isIntersectionInhabited :: "TypeId \<Rightarrow> TypeId \<Rightarrow> TC \<Rightarrow> bool \<times> TC"
  isInhabited :: "TypeId \<Rightarrow> TC \<Rightarrow> bool \<times> TC"
  typeFromNormal :: "NormalizedType \<Rightarrow> TC \<Rightarrow> TypeId \<times> TC"
  toString_type :: "Heap \<Rightarrow> TypeId \<Rightarrow> string"
  toString_op :: "AstExprBinary_Op \<Rightarrow> string"
  kBinaryOpMetamethods :: "AstExprBinary_Op \<Rightarrow> string option"
  opNumber :: "AstExprBinary_Op \<Rightarrow> nat"
  getTableType :: "Heap \<Rightarrow> TypeId \<Rightarrow> TableType option"
  findTablePropertyRespectingMeta :: "Heap \<Rightarrow> TypeId \<Rightarrow> Name \<Rightarrow> Location \<Rightarrow> TypeId option \<times> TypeError list"
  lookupClassProp :: "Heap \<Rightarrow> ClassType \<Rightarrow> Name \<Rightarrow> Property option"
  unionIterate :: "Heap \<Rightarrow> TypeId list \<Rightarrow> TypeId list"
  isPrim :: "Heap \<Rightarrow> TypeId \<Rightarrow> PrimitiveKind \<Rightarrow> bool"

subsection \<open>Subtyping tests and error reporting\<close>

text \<open>\<open>isSubtype\<close>: a fresh covariant unifier; the answer is that it produced no error and
  left its log empty.  Nothing is committed.\<close>

definition isSubtype :: "Env \<Rightarrow> Scope \<Rightarrow> TypeId \<Rightarrow> TypeId \<Rightarrow> bool \<Rightarrow> TC \<Rightarrow> bool" where
  "isSubtype env scope subTy superTy genericsOkay tc =
     (let (errs, logEmpty) = Unifier_tryUnify env (heap tc) scope (Location (Position 0 0) (Position 0 0))
                               genericsOkay subTy superTy
      in errs = [] \<and> logEmpty)"

text \<open>\<open>tryUnify\<close>: the unifier's errors (\<open>genericsOkay\<close> is false at every call modelled
  here).\<close>

definition tryUnify :: "Env \<Rightarrow> Scope \<Rightarrow> Location \<Rightarrow> TypeId \<Rightarrow> TypeId \<Rightarrow> TC \<Rightarrow> TypeError list" where
  "tryUnify env scope location subTy superTy tc =
     fst (Unifier_tryUnify env (heap tc) scope location False subTy superTy)"

text \<open>
  Modelled from the spec: \<open>equalsLower\<close> (\<open>Luau/StringUtils.h\<close>) is not among the sources;
  section 4.F calls it case-insensitive equality.  Two strings are equal once every ASCII
  capital is replaced by its small letter.
\<close>

definition toLower :: "char \<Rightarrow> char" where
  "toLower c = (if (65::nat) \<le> of_char c \<and> of_char c \<le> (90::nat) then char_of (of_char c + (32::nat)) else c)"

definition equalsLower :: "string \<Rightarrow> string \<Rightarrow> bool" where
  "equalsLower lhs rhs = (map toLower lhs = map toLower rhs)"

text \<open>The \<open>accumulate\<close> lambda of \<open>diagnoseMissingTableKey\<close>: the names of \<open>props\<close> that
  differ from the key and equal it up to case.\<close>

definition accumulate :: "Name \<Rightarrow> (Name \<times> Property) list \<Rightarrow> Name set" where
  "accumulate sv ps = set (filter (\<lambda>name. sv \<noteq> name \<and> equalsLower sv name) (map fst ps))"

text \<open>The walk up the chain of parents of a class.  It asserts that every parent is a
  class, and it does not return on a chain that is a cycle.\<close>

partial_function (option) accumulateClasses ::
  "Heap \<Rightarrow> Name \<Rightarrow> ClassType \<Rightarrow> Name set \<Rightarrow> (failure + Name set) option" where
  "accumulateClasses h sv ctv candidates =
     (let candidates' = candidates \<union> accumulate sv (cls_props ctv)
      in case parent ctv of
           None \<Rightarrow> Some (Inr candidates')
         | Some p \<Rightarrow>
             (case getVariant h p of
                Some (ClassTypeV ctv') \<Rightarrow> accumulateClasses h sv ctv' candidates'
              | _ \<Rightarrow> Some (Inl LuauAssertFailed)))"

text \<open>The classes \<open>cs\<close> are the ancestors of \<open>ctv\<close>, nearest first, and the last of them
  has no parent.\<close>

fun classChain :: "Heap \<Rightarrow> ClassType \<Rightarrow> ClassType list \<Rightarrow> bool" where
  "classChain h ctv [] = (parent ctv = None)"
| "classChain h ctv (c # cs) =
     (case parent ctv of
        Some p \<Rightarrow> getVariant h p = Some (ClassTypeV c) \<and> classChain h c cs
      | None \<Rightarrow> False)"

definition diagnoseMissingTableKey :: "Env \<Rightarrow> Heap \<Rightarrow> TypeId \<Rightarrow> Name \<Rightarrow> TypeErrorData outcome" where
  "diagnoseMissingTableKey env h table key =
     andThen
       (case getTableType env h table of
          Some ttv \<Rightarrow> returns (accumulate key (props ttv))
        | None \<Rightarrow>
            (case getVariant h (follow env h table) of
               Some (ClassTypeV ctv) \<Rightarrow> accumulateClasses h key ctv {}
             | _ \<Rightarrow> returns {}))
       (\<lambda>candidates.
          if candidates \<noteq> {} then returns (UnknownPropButFoundLikeProp table key candidates)
          else returns (UnknownProperty table key))"

text \<open>\<open>reportError(TypeErrorData, Location)\<close>: an \<open>UnknownProperty\<close> is first passed
  through \<open>diagnoseMissingTableKey\<close>; the error is appended to the module's errors and
  handed to the logger when there is one.\<close>

definition recordError :: "Env \<Rightarrow> TypeErrorData \<Rightarrow> Location \<Rightarrow> TC \<Rightarrow> TC" where
  "recordError env data location tc =
     (let e = TypeError location (moduleName env) data
      in tc\<lparr>module_errors := module_errors tc @ [e],
            logged := (if hasLogger env then logged tc @ [e] else logged tc)\<rparr>)"

definition reportError :: "Env \<Rightarrow> TypeErrorData \<Rightarrow> Location \<Rightarrow> TC \<Rightarrow> TC outcome" where
  "reportError env data location tc =
     andThen
       (case data of
          UnknownProperty table key \<Rightarrow> diagnoseMissingTableKey env (heap tc) table key
        | _ \<Rightarrow> returns data)
       (\<lambda>data'. returns (recordError env data' location tc))"

text \<open>\<open>reportErrors\<close>: every error of the vector, in order, through \<open>reportError\<close> with its
  own data and location.\<close>

fun reportErrors :: "Env \<Rightarrow> TypeError list \<Rightarrow> TC \<Rightarrow> TC outcome" where
  "reportErrors env [] tc = returns tc"
| "reportErrors env (e # es) tc =
     andThen (reportError env (err_data e) (err_location e) tc) (reportErrors env es)"

subsection \<open>Constants and type assertions\<close>

text \<open>The four visits of constant literals: look the stored type up and
  \<open>LUAU_ASSERT(isSubtype(actualType, expectedType, scope))\<close>.  \<open>scope\<close> is
  \<open>stack.back()\<close>.\<close>

definition visitConstant :: "Env \<Rightarrow> Scope \<Rightarrow> TypeId \<Rightarrow> AstExpr \<Rightarrow> TC \<Rightarrow> TC outcome" where
  "visitConstant env scope expectedType expr tc =
     andThen (lookupType env expr tc)
       (\<lambda>(actualType, tc1).
          if isSubtype env scope actualType expectedType False tc1 then returns tc1
          else assertFailed)"

definition visit_AstExprConstantNil :: "Env \<Rightarrow> Scope \<Rightarrow> AstExpr \<Rightarrow> TC \<Rightarrow> TC outcome" where
  "visit_AstExprConstantNil env scope expr tc =
     visitConstant env scope (nilType (builtinTypes env)) expr tc"

definition visit_AstExprConstantBool :: "Env \<Rightarrow> Scope \<Rightarrow> AstExpr \<Rightarrow> TC \<Rightarrow> TC outcome" where
  "visit_AstExprConstantBool env scope expr tc =
     visitConstant env scope (booleanType (builtinTypes env)) expr tc"

definition visit_AstExprConstantNumber :: "Env \<Rightarrow> Scope \<Rightarrow> AstExpr \<Rightarrow> TC \<Rightarrow> TC outcome" where
  "visit_AstExprConstantNumber env scope expr tc =
     visitConstant env scope (numberType (builtinTypes env)) expr tc"

definition visit_AstExprConstantString :: "Env \<Rightarrow> Scope \<Rightarrow> AstExpr \<Rightarrow> TC \<Rightarrow> TC outcome" where
  "visit_AstExprConstantString env scope expr tc =
     visitConstant env scope (stringType (builtinTypes env)) expr tc"

text \<open>\<open>visit(AstExprTypeAssertion*)\<close>.\<close>

definition visit_AstExprTypeAssertion :: "Env \<Rightarrow> Scope \<Rightarrow> AstExprTypeAssertion \<Rightarrow> TC \<Rightarrow> TC outcome" where
  "visit_AstExprTypeAssertion env scope expr tc =
     andThen (visitExpr env (asr_expr expr) RValue tc) (\<lambda>tc1.
     andThen (visitType env (asr_annotation expr) tc1) (\<lambda>tc2.
     andThen (lookupAnnotation env (asr_annotation expr) tc2) (\<lambda>(annotationType, tc3).
     andThen (lookupType env (asr_expr expr) tc3) (\<lambda>(computedType, tc4).
       if isSubtype env scope annotationType computedType True tc4 then returns tc4
       else if isSubtype env scope computedType annotationType True tc4 then returns tc4
       else reportError env (TypesAreUnrelated computedType annotationType)
              (expr_location (asr_self expr)) tc4))))"

subsection \<open>Binary expressions\<close>

definition quoted :: "string \<Rightarrow> string" where
  "quoted s = [CHR 0x27] @ s @ [CHR 0x27]"

text \<open>\<open>isComparison\<close>: the operator lies between \<open>CompareEq\<close> and \<open>CompareGe\<close> in the
  numbering of the enumeration.\<close>

definition isComparisonOp :: "Env \<Rightarrow> AstExprBinary_Op \<Rightarrow> bool" where
  "isComparisonOp env op =
     (opNumber env CompareEq \<le> opNumber env op \<and> opNumber env op \<le> opNumber env CompareGe)"

definition isEqualityOp :: "AstExprBinary_Op \<Rightarrow> bool" where
  "isEqualityOp op = (op = CompareEq \<or> op = CompareNe)"

definition isLogicalOp :: "AstExprBinary_Op \<Rightarrow> bool" where
  "isLogicalOp op = (op = And \<or> op = Or)"

text \<open>\<open>FunctionType(argTypes, retTypes)\<close>: no generics, level zero, no definition, no
  self.\<close>

definition mkFunctionType :: "TypePackId \<Rightarrow> TypePackId \<Rightarrow> FunctionType" where
  "mkFunctionType args rets =
     \<lparr>fn_level = TypeLevel 0 0, generics = [], genericPacks = [],
      argTypes = Some args, retTypes = Some rets, argNames = [], fn_tags = [],
      definition_info = None, hasSelf = False, hasNoFreeOrGenericTypes = False\<rparr>"

definition liftHeap :: "(Heap \<Rightarrow> 'a \<times> Heap) \<Rightarrow> TC \<Rightarrow> 'a \<times> TC" where
  "liftHeap f tc = (let (x, h) = f (heap tc) in (x, tc\<lparr>heap := h\<rparr>))"

text \<open>The \<open>testUnion\<close> lambda: some option of the union has the other side's metatable.\<close>

definition testUnion :: "Env \<Rightarrow> Heap \<Rightarrow> TypeId list \<Rightarrow> TypeId option \<Rightarrow> bool" where
  "testUnion env h options otherMt =
     list_ex (\<lambda>option. getMetatable env h (follow env h option) = otherMt) (unionIterate env h options)"

text \<open>The function type that the metamethod is unified with:
  \<open>expectedArgs\<close>, \<open>expectedRets\<close> and \<open>expectedTy\<close>, allocated in the test arena in
  this order.\<close>

definition synthesizeExpected ::
  "Env \<Rightarrow> Scope \<Rightarrow> AstExprBinary_Op \<Rightarrow> TypeId \<Rightarrow> TypeId \<Rightarrow> TC \<Rightarrow> TypeId \<times> TC" where
  "synthesizeExpected env scope op leftType rightType tc =
     (let (expectedArgs, tc1) =
            (if op = CompareGe \<or> op = CompareGt
             then liftHeap (addTypePack (TypePackV [rightType, leftType] None)) tc
             else liftHeap (addTypePack (TypePackV [leftType, rightType] None)) tc);
          (expectedRets, tc2) =
            (if op = CompareEq \<or> op = CompareNe \<or> op = CompareGe \<or> op = CompareGt \<or>
                op = CompareLe \<or> op = CompareLt
             then liftHeap (addTypePack (TypePackV [booleanType (builtinTypes env)] None)) tc1
             else (let (fresh, tc') = liftHeap (addType (FreeTypeV (Some scope) (TypeLevel 0 0))) tc1
                   in liftHeap (addTypePack (TypePackV [fresh] None)) tc'))
      in liftHeap (addType (FunctionTypeV (mkFunctionType expectedArgs expectedRets))) tc2)"

text \<open>The body of \<open>if (mm)\<close>: the metamethod \<open>mm\<close> was found; \<open>leftType\<close> and
  \<open>rightType\<close> are the two variables as they stand there, exchanged already when the
  metamethod came from the right operand.\<close>

definition binaryMetamethodCall ::
  "Env \<Rightarrow> Scope \<Rightarrow> AstExprBinary \<Rightarrow> nat option \<Rightarrow> string \<Rightarrow> TypeId \<Rightarrow> TypeId \<Rightarrow> TypeId \<Rightarrow> TypeId \<Rightarrow>
   TC \<Rightarrow> (TypeId \<times> TC) outcome" where
  "binaryMetamethodCall env scope expr overrideKey mmName mm leftType rightType expectedResult tc =
     (let key = (case overrideKey of Some k \<Rightarrow> k | None \<Rightarrow> expr_id (bin_self expr));
          location = expr_location (bin_self expr);
          op = bin_op expr
      in case astOverloadResolvedTypes tc key of
           None \<Rightarrow> returns (expectedResult, tc)
         | Some instantiatedMm \<Rightarrow>
             (case getVariant (heap tc) (follow env (heap tc) instantiatedMm) of
                Some (FunctionTypeV ftv) \<Rightarrow>
                  (let (expectedTy, tc3) = synthesizeExpected env scope op leftType rightType tc
                   in andThen (reportErrors env (tryUnify env scope location (follow env (heap tc3) mm) expectedTy tc3) tc3)
                        (\<lambda>tc4.
                           case first env (heap tc4) (retTypes ftv) of
                             Some ret \<Rightarrow>
                               if isComparisonOp env op then
                                 andThen
                                   (if \<not> isBoolean env (heap tc4) (follow env (heap tc4) ret)
                                    then reportError env
                                           (GenericError (''Metamethod '' @ quoted mmName @ '' must return a boolean''))
                                           location tc4
                                    else returns tc4)
                                   (\<lambda>tc5. returns (booleanType (builtinTypes env), tc5))
                               else returns (follow env (heap tc4) ret, tc4)
                           | None \<Rightarrow>
                               andThen
                                 (if isComparisonOp env op
                                  then reportError env
                                         (GenericError (''Metamethod '' @ quoted mmName @ '' must return a boolean''))
                                         location tc4
                                  else reportError env
                                         (GenericError (''Metamethod '' @ quoted mmName @ '' must return a value''))
                                         location tc4)
                                 (\<lambda>tc5. returns (errorType (builtinTypes env), tc5))))
              | _ \<Rightarrow>
                  andThen (reportError env (CannotCallNonFunction mm) location tc)
                    (\<lambda>tc1. returns (errorType (builtinTypes env), tc1))))"

text \<open>The value of \<open>matches\<close> when the metamethod lookup starts: the two metatables are
  equal, or, for an equality, one of the adjustments applies.\<close>

definition metatablesMatch ::
  "Env \<Rightarrow> AstExprBinary_Op \<Rightarrow> Heap \<Rightarrow> TypeId \<Rightarrow> TypeId \<Rightarrow> bool \<Rightarrow> bool" where
  "metatablesMatch env op h leftType rightType typesHaveIntersection =
     (let leftMt = getMetatable env h leftType;
          rightMt = getMetatable env h rightType;
          matches0 = (leftMt = rightMt)
      in if isEqualityOp op \<and> \<not> matches0 then
           (let m1 = (case getVariant h leftType of
                        Some (UnionTypeV options) \<Rightarrow>
                          if rightMt \<noteq> None then testUnion env h options rightMt else matches0
                      | _ \<Rightarrow> matches0);
                m2 = (case getVariant h rightType of
                        Some (UnionTypeV options) \<Rightarrow>
                          if leftMt \<noteq> None \<and> \<not> m1 then testUnion env h options leftMt else m1
                      | _ \<Rightarrow> m1)
            in if leftMt = None \<or> rightMt = None then m2 \<or> typesHaveIntersection else m2)
         else matches0)"

text \<open>The block guarded by \<open>kBinaryOpMetamethods.find(expr->op)\<close>, entered with the name
  of the operator's metamethod.  \<open>Inl\<close> is a \<open>return\<close> of the visit, \<open>Inr\<close> the state
  with which control falls through to the operator switch.\<close>

definition binaryMetamethodPhase ::
  "Env \<Rightarrow> Scope \<Rightarrow> AstExprBinary \<Rightarrow> nat option \<Rightarrow> string \<Rightarrow> TypeId \<Rightarrow> TypeId \<Rightarrow> TypeId \<Rightarrow> bool \<Rightarrow> bool \<Rightarrow>
   TC \<Rightarrow> ((TypeId \<times> TC) + TC) outcome" where
  "binaryMetamethodPhase env scope expr overrideKey mmName leftType rightType expectedResult
       typesHaveIntersection isStringOperation tc =
     (let op = bin_op expr;
          location = expr_location (bin_self expr);
          h = heap tc;
          leftMt = getMetatable env h leftType;
          rightMt = getMetatable env h rightType;
          matches = metatablesMatch env op h leftType rightType typesHaveIntersection
      in if \<not> matches \<and> isComparisonOp env op then
           andThen
             (reportError env
                (GenericError (''Types '' @ toString_type env h leftType @ '' and '' @
                   toString_type env h rightType @ '' cannot be compared with '' @ toString_op env op @
                   '' because they do not have the same metatable''))
                location tc)
             (\<lambda>tc1. returns (Inl (errorType (builtinTypes env), tc1)))
         else
           (let (leftMm, errs1) = findMetatableEntry env h leftType mmName (expr_location (bin_left expr));
                tc1 = tc\<lparr>module_errors := module_errors tc @ errs1\<rparr>
            in case leftMm of
                 Some mm \<Rightarrow>
                   andThen
                     (binaryMetamethodCall env scope expr overrideKey mmName mm leftType rightType
                        expectedResult tc1)
                     (\<lambda>r. returns (Inl r))
               | None \<Rightarrow>
                   (let (rightMm, errs2) =
                          findMetatableEntry env (heap tc1) rightType mmName (expr_location (bin_right expr));
                        tc2 = tc1\<lparr>module_errors := module_errors tc1 @ errs2\<rparr>
                    in case rightMm of
                         Some mm \<Rightarrow>
                           andThen
                             (binaryMetamethodCall env scope expr overrideKey mmName mm rightType leftType
                                expectedResult tc2)
                             (\<lambda>r. returns (Inl r))
                       | None \<Rightarrow>
                           if \<not> isEqualityOp op \<and>
                              \<not> (isStringOperation \<and> (op = Concat \<or> isComparisonOp env op))
                           then
                             if (leftMt \<noteq> None \<and> \<not> isString env (heap tc2) leftType) \<or>
                                (rightMt \<noteq> None \<and> \<not> isString env (heap tc2) rightType)
                             then
                               andThen
                                 (reportError env
                                    (GenericError
                                       (if isComparisonOp env op
                                        then ''Types '' @ quoted (toString_type env (heap tc2) leftType) @
                                             '' and '' @ quoted (toString_type env (heap tc2) rightType) @
                                             '' cannot be compared with '' @ toString_op env op @
                                             '' because neither type'' @ [CHR 0x27] @ ''s metatable has a '' @
                                             quoted mmName @ '' metamethod''
                                        else ''Operator '' @ toString_op env op @ '' is not applicable for '' @
                                             quoted (toString_type env (heap tc2) leftType) @ '' and '' @
                                             quoted (toString_type env (heap tc2) rightType) @
                                             '' because neither type'' @ [CHR 0x27] @ ''s metatable has a '' @
                                             quoted mmName @ '' metamethod''))
                                    location tc2)
                                 (\<lambda>tc3. returns (Inl (errorType (builtinTypes env), tc3)))
                             else if leftMt = None \<and> rightMt = None \<and>
                                     ((case getVariant (heap tc2) leftType of Some (TableTypeV t) \<Rightarrow> True | _ \<Rightarrow> False) \<or>
                                      (case getVariant (heap tc2) rightType of Some (TableTypeV t) \<Rightarrow> True | _ \<Rightarrow> False))
                             then
                               andThen
                                 (reportError env
                                    (GenericError
                                       (if isComparisonOp env op
                                        then ''Types '' @ quoted (toString_type env (heap tc2) leftType) @
                                             '' and '' @ quoted (toString_type env (heap tc2) rightType) @
                                             '' cannot be compared with '' @ toString_op env op @
                                             '' because neither type has a metatable''
                                        else ''Operator '' @ toString_op env op @ '' is not applicable for '' @
                                             quoted (toString_type env (heap tc2) leftType) @ '' and '' @
                                             quoted (toString_type env (heap tc2) rightType) @
                                             '' because neither type has a metatable''))
                                    location tc2)
                                 (\<lambda>tc3. returns (Inl (errorType (builtinTypes env), tc3)))
                             else returns (Inr tc2)
                           else returns (Inr tc2))))"

definition binaryMetamethodBlock ::
  "Env \<Rightarrow> Scope \<Rightarrow> AstExprBinary \<Rightarrow> nat option \<Rightarrow> TypeId \<Rightarrow> TypeId \<Rightarrow> TypeId \<Rightarrow> bool \<Rightarrow> bool \<Rightarrow>
   TC \<Rightarrow> ((TypeId \<times> TC) + TC) outcome" where
  "binaryMetamethodBlock env scope expr overrideKey leftType rightType expectedResult
       typesHaveIntersection isStringOperation tc =
     (case kBinaryOpMetamethods env (bin_op expr) of
        Some mmName \<Rightarrow>
          binaryMetamethodPhase env scope expr overrideKey mmName leftType rightType expectedResult
            typesHaveIntersection isStringOperation tc
      | None \<Rightarrow> returns (Inr tc))"

text \<open>The operator switch, reached when the metamethod block did not return.\<close>

definition binaryPrimitive ::
  "Env \<Rightarrow> Scope \<Rightarrow> AstExprBinary \<Rightarrow> TypeId \<Rightarrow> TypeId \<Rightarrow> TC \<Rightarrow> (TypeId \<times> TC) outcome" where
  "binaryPrimitive env scope expr leftType rightType tc =
     (let op = bin_op expr;
          bt = builtinTypes env
      in if op = Add \<or> op = Sub \<or> op = Mul \<or> op = Div \<or> op = Pow \<or> op = Mod then
           andThen (reportErrors env (tryUnify env scope (expr_location (bin_left expr)) leftType (numberType bt) tc) tc) (\<lambda>tc1.
           andThen (reportErrors env (tryUnify env scope (expr_location (bin_right expr)) rightType (numberType bt) tc1) tc1) (\<lambda>tc2.
             returns (numberType bt, tc2)))
         else if op = Concat then
           andThen (reportErrors env (tryUnify env scope (expr_location (bin_left expr)) leftType (stringType bt) tc) tc) (\<lambda>tc1.
           andThen (reportErrors env (tryUnify env scope (expr_location (bin_right expr)) rightType (stringType bt) tc1) tc1) (\<lambda>tc2.
             returns (stringType bt, tc2)))
         else if op = CompareGe \<or> op = CompareGt \<or> op = CompareLe \<or> op = CompareLt then
           (let (leftTyNorm, tc1) = normalize env leftType tc
            in if (case leftTyNorm of Some n \<Rightarrow> exactlyNumber n | None \<Rightarrow> False) then
                 andThen (reportErrors env (tryUnify env scope (expr_location (bin_right expr)) rightType (numberType bt) tc1) tc1)
                   (\<lambda>tc2. returns (numberType bt, tc2))
               else if (case leftTyNorm of Some n \<Rightarrow> subtypeOfString n | None \<Rightarrow> False) then
                 andThen (reportErrors env (tryUnify env scope (expr_location (bin_right expr)) rightType (stringType bt) tc1) tc1)
                   (\<lambda>tc2. returns (stringType bt, tc2))
               else
                 andThen
                   (reportError env
                      (GenericError (''Types '' @ quoted (toString_type env (heap tc1) leftType) @ '' and '' @
                         quoted (toString_type env (heap tc1) rightType) @
                         '' cannot be compared with relational operator '' @ toString_op env op))
                      (expr_location (bin_self expr)) tc1)
                   (\<lambda>tc2. returns (errorType bt, tc2)))
         else returns (anyType bt, tc))"

definition isAnyErrorNever :: "Heap \<Rightarrow> TypeId \<Rightarrow> bool" where
  "isAnyErrorNever h t =
     (getVariant h t = Some AnyTypeV \<or> getVariant h t = Some ErrorTypeV \<or> getVariant h t = Some NeverTypeV)"

definition isBlockedFreeGeneric :: "Heap \<Rightarrow> TypeId \<Rightarrow> bool" where
  "isBlockedFreeGeneric h t =
     (case getVariant h t of
        Some (BlockedTypeV i) \<Rightarrow> True
      | Some (FreeTypeV sc l) \<Rightarrow> True
      | Some (GenericTypeV n sc) \<Rightarrow> True
      | _ \<Rightarrow> False)"

definition isTypeFamilyInstance :: "Heap \<Rightarrow> TypeId \<Rightarrow> bool" where
  "isTypeFamilyInstance h t =
     (case getVariant h t of Some (TypeFamilyInstanceTypeV f targs pargs) \<Rightarrow> True | _ \<Rightarrow> False)"

text \<open>\<open>visit(AstExprBinary*, AstNode* overrideKey)\<close>.\<close>

definition visit_AstExprBinary ::
  "Env \<Rightarrow> Scope \<Rightarrow> AstExprBinary \<Rightarrow> nat option \<Rightarrow> TC \<Rightarrow> (TypeId \<times> TC) outcome" where
  "visit_AstExprBinary env scope expr overrideKey tc =
     andThen (visitExpr env (bin_left expr) LValue tc) (\<lambda>tc1.
     andThen (visitExpr env (bin_right expr) LValue tc1) (\<lambda>tc2.
     andThen (lookupType env (bin_left expr) tc2) (\<lambda>(leftType0, tc3).
     andThen (lookupType env (bin_right expr) tc3) (\<lambda>(rightType, tc4).
     andThen (lookupType env (bin_self expr) tc4) (\<lambda>(expectedResult, tc5).
       let op = bin_op expr; location = expr_location (bin_self expr)
       in if isTypeFamilyInstance (heap tc5) expectedResult then
            andThen (checkForInternalFamily env expectedResult location tc5)
              (\<lambda>tc6. returns (expectedResult, tc6))
          else
              (let (leftType, tc6) = (if op = Or then stripNil env leftType0 tc5 else (leftType0, tc5));
                   isStringOperation = (isString env (heap tc6) leftType \<and> isString env (heap tc6) rightType)
               in if isAnyErrorNever (heap tc6) leftType then returns (leftType, tc6)
                  else if isAnyErrorNever (heap tc6) rightType then returns (rightType, tc6)
                  else if isBlockedFreeGeneric (heap tc6) leftType \<and> \<not> isEqualityOp op \<and> \<not> isLogicalOp op then
                    andThen
                      (reportError env
                         (CannotInferBinaryOperation op (getIdentifierOfBaseVar env (bin_left expr))
                            (if isComparisonOp env op then Comparison else Operation))
                         location tc6)
                      (\<lambda>tc7. returns (leftType, tc7))
                  else
                    (let (typesHaveIntersection, tc7) = isIntersectionInhabited env leftType rightType tc6
                     in andThen
                          (binaryMetamethodBlock env scope expr overrideKey leftType rightType
                             expectedResult typesHaveIntersection isStringOperation tc7)
                          (\<lambda>r. case r of
                                  Inl res \<Rightarrow> returns res
                                | Inr tc8 \<Rightarrow> binaryPrimitive env scope expr leftType rightType tc8))))))))"

subsection \<open>Property lookup\<close>

text \<open>
  \<open>hasIndexTypeFromType\<close> with the two standard algorithms it uses: \<open>One ty\<close> is the
  function at the type \<open>ty\<close>, \<open>AllOf parts\<close> is \<open>std::all_of\<close> over the remaining parts of
  a union and \<open>AnyOf parts\<close> is \<open>std::any_of\<close> over the remaining parts of an intersection,
  both stopping at the first part that decides.  The set \<open>seen\<close> is shared by all calls;
  the state also collects the errors that the helpers append to the module and the nodes
  added to the test arena.
\<close>

datatype IndexWalk = One TypeId | AllOf "TypeId list" | AnyOf "TypeId list"

partial_function (option) hasIndexTypeFromTypeWalk ::
  "Env \<Rightarrow> Name \<Rightarrow> Location \<Rightarrow> TypeId \<Rightarrow> IndexWalk \<Rightarrow> TypeId set \<Rightarrow> TC \<Rightarrow>
   (failure + bool \<times> TypeId set \<times> TC) option" where
  "hasIndexTypeFromTypeWalk env prop location astIndexExprType walk seen tc =
     (case walk of
        AllOf [] \<Rightarrow> Some (Inr (True, seen, tc))
      | AllOf (part # parts) \<Rightarrow>
          Option.bind (hasIndexTypeFromTypeWalk env prop location astIndexExprType (One part) seen tc)
            (\<lambda>r. case r of
                    Inl e \<Rightarrow> Some (Inl e)
                  | Inr (b, seen', tc') \<Rightarrow>
                      if b then hasIndexTypeFromTypeWalk env prop location astIndexExprType (AllOf parts) seen' tc'
                      else Some (Inr (False, seen', tc')))
      | AnyOf [] \<Rightarrow> Some (Inr (False, seen, tc))
      | AnyOf (part # parts) \<Rightarrow>
          Option.bind (hasIndexTypeFromTypeWalk env prop location astIndexExprType (One part) seen tc)
            (\<lambda>r. case r of
                    Inl e \<Rightarrow> Some (Inl e)
                  | Inr (b, seen', tc') \<Rightarrow>
                      if b then Some (Inr (True, seen', tc'))
                      else hasIndexTypeFromTypeWalk env prop location astIndexExprType (AnyOf parts) seen' tc')
      | One ty0 \<Rightarrow>
          if ty0 \<in> seen then Some (Inr (True, seen, tc))
          else
            (let seen1 = insert ty0 seen in
             if isAnyErrorNever (heap tc) ty0 then Some (Inr (True, seen1, tc))
             else
               (let strIndex =
                      (if isString env (heap tc) ty0
                       then Some (findMetatableEntry env (heap tc) (stringType (builtinTypes env)) ''__index'' location)
                       else None)
                in case strIndex of
                     Some (None, errs) \<Rightarrow> Some (Inl LuauAssertFailed)
                   | _ \<Rightarrow>
                     (let ty = (case strIndex of Some (Some mtIndex, errs) \<Rightarrow> mtIndex | _ \<Rightarrow> ty0);
                          tc1 = (case strIndex of
                                   Some (r, errs) \<Rightarrow> tc\<lparr>module_errors := module_errors tc @ errs\<rparr>
                                 | None \<Rightarrow> tc)
                      in case getTableType env (heap tc1) ty of
                           Some tt \<Rightarrow>
                             (let (found, errs) = findTablePropertyRespectingMeta env (heap tc1) ty prop location;
                                  tc2 = tc1\<lparr>module_errors := module_errors tc1 @ errs\<rparr>
                              in if found \<noteq> None then Some (Inr (True, seen1, tc2))
                                 else
                                   (case indexer tt of
                                      Some ix \<Rightarrow>
                                        (let indexTy = follow env (heap tc2) (indexType ix)
                                         in if isPrim env (heap tc2) indexTy PrimString then Some (Inr (True, seen1, tc2))
                                            else if getVariant (heap tc2) indexTy = Some AnyTypeV \<or>
                                                    getVariant (heap tc2) indexTy = Some UnknownTypeV
                                            then Some (Inr (True, seen1, tc2))
                                            else Some (Inr (False, seen1, tc2)))
                                    | None \<Rightarrow> Some (Inr (False, seen1, tc2))))
                         | None \<Rightarrow>
                             (case getVariant (heap tc1) ty of
                                Some (ClassTypeV cls) \<Rightarrow>
                                  if lookupClassProp env (heap tc1) cls prop \<noteq> None then Some (Inr (True, seen1, tc1))
                                  else
                                    (case cls_indexer cls of
                                       Some ix \<Rightarrow>
                                         (let (inhabitatedTestType, tc2) =
                                                liftHeap (addType (IntersectionTypeV [indexType ix, astIndexExprType])) tc1;
                                              (b, tc3) = isInhabited env inhabitatedTestType tc2
                                          in Some (Inr (b, seen1, tc3)))
                                     | None \<Rightarrow> Some (Inr (False, seen1, tc1)))
                              | Some (UnionTypeV options) \<Rightarrow>
                                  hasIndexTypeFromTypeWalk env prop location astIndexExprType
                                    (AllOf (unionIterate env (heap tc1) options)) seen1 tc1
                              | Some (IntersectionTypeV parts) \<Rightarrow>
                                  hasIndexTypeFromTypeWalk env prop location astIndexExprType (AnyOf parts) seen1 tc1
                              | _ \<Rightarrow> Some (Inr (False, seen1, tc1)))))))"

definition hasIndexTypeFromType ::
  "Env \<Rightarrow> TypeId \<Rightarrow> Name \<Rightarrow> Location \<Rightarrow> TypeId set \<Rightarrow> TypeId \<Rightarrow> TC \<Rightarrow> (bool \<times> TypeId set \<times> TC) outcome" where
  "hasIndexTypeFromType env ty prop location seen astIndexExprType tc =
     hasIndexTypeFromTypeWalk env prop location astIndexExprType (One ty) seen tc"

text \<open>The \<open>fetch\<close> lambda of \<open>checkIndexTypeFromType\<close>.  Its state is \<open>foundOneProp\<close>,
  \<open>typesMissingTheProp\<close> and the checker's state.\<close>

definition fetch ::
  "Env \<Rightarrow> Name \<Rightarrow> Location \<Rightarrow> TypeId \<Rightarrow> TypeId \<Rightarrow> bool \<times> TypeId list \<times> TC \<Rightarrow>
   (bool \<times> TypeId list \<times> TC) outcome" where
  "fetch env prop location astIndexExprType ty st =
     (case st of (foundOneProp, typesMissingTheProp, tc) \<Rightarrow>
        (let (inhabited, tc1) = isInhabited env ty tc
         in if \<not> inhabited then returns (foundOneProp, typesMissingTheProp, tc1)
            else
              andThen (hasIndexTypeFromType env ty prop location {} astIndexExprType tc1)
                (\<lambda>(found, seen, tc2).
                   returns (foundOneProp \<or> found,
                            (if \<not> found then typesMissingTheProp @ [ty] else typesMissingTheProp),
                            tc2))))"

fun fetchEach ::
  "Env \<Rightarrow> Name \<Rightarrow> Location \<Rightarrow> TypeId \<Rightarrow> TypeId list \<Rightarrow> bool \<times> TypeId list \<times> TC \<Rightarrow>
   (bool \<times> TypeId list \<times> TC) outcome" where
  "fetchEach env prop location astIndexExprType [] st = returns st"
| "fetchEach env prop location astIndexExprType (ty # tys) st =
     andThen (fetch env prop location astIndexExprType ty st)
       (fetchEach env prop location astIndexExprType tys)"

text \<open>The loop over \<open>norm->tyvars\<close>.\<close>

fun fetchTyvars ::
  "Env \<Rightarrow> Name \<Rightarrow> Location \<Rightarrow> TypeId \<Rightarrow> (TypeId \<times> NormalizedType) list \<Rightarrow> bool \<times> TypeId list \<times> TC \<Rightarrow>
   (bool \<times> TypeId list \<times> TC) outcome" where
  "fetchTyvars env prop location astIndexExprType [] st = returns st"
| "fetchTyvars env prop location astIndexExprType ((tyvar, intersect) # rest) st =
     (case st of (foundOneProp, typesMissingTheProp, tc) \<Rightarrow>
        andThen
          (if getVariant (heap tc) (tops intersect) = Some NeverTypeV then
             (let (t, tc1) = typeFromNormal env intersect tc;
                  (it, tc2) = liftHeap (addType (IntersectionTypeV [tyvar, t])) tc1
              in fetch env prop location astIndexExprType it (foundOneProp, typesMissingTheProp, tc2))
           else fetch env prop location astIndexExprType tyvar st)
          (fetchTyvars env prop location astIndexExprType rest))"

text \<open>All the \<open>fetch\<close> calls of \<open>checkIndexTypeFromType\<close>, in the order of the source,
  starting from \<open>foundOneProp = false\<close> and no missing type.\<close>

definition fetchComponents ::
  "Env \<Rightarrow> Name \<Rightarrow> Location \<Rightarrow> TypeId \<Rightarrow> NormalizedType \<Rightarrow> TC \<Rightarrow> (bool \<times> TypeId list \<times> TC) outcome" where
  "fetchComponents env prop location astIndexExprType norm tc =
     (let f = fetch env prop location astIndexExprType;
          each = fetchEach env prop location astIndexExprType
      in andThen (f (tops norm) (False, [], tc)) (\<lambda>st.
         andThen (f (booleans norm) st) (\<lambda>st.
         andThen (each (classes norm) st) (\<lambda>st.
         andThen (f (errors norm) st) (\<lambda>st.
         andThen (f (nils norm) st) (\<lambda>st.
         andThen (f (numbers norm) st) (\<lambda>st.
         andThen (if \<not> strings_isNever norm then f (stringType (builtinTypes env)) st else returns st) (\<lambda>st.
         andThen (f (threads norm) st) (\<lambda>st.
         andThen (each (tables norm) st) (\<lambda>st.
         andThen
           (if functions_isTop norm then f (functionType (builtinTypes env)) st
            else if \<not> functions_isNever norm then
              (case functions_parts norm of
                 [part] \<Rightarrow> f part st
               | parts \<Rightarrow>
                   (case st of (foundOneProp, typesMissingTheProp, tc') \<Rightarrow>
                      (let (it, tc'') = liftHeap (addType (IntersectionTypeV parts)) tc'
                       in f it (foundOneProp, typesMissingTheProp, tc''))))
            else returns st) (\<lambda>st.
         fetchTyvars env prop location astIndexExprType (tyvars norm) st)))))))))))"

definition isClassType :: "Heap \<Rightarrow> TypeId \<Rightarrow> bool" where
  "isClassType h t = (case getVariant h t of Some (ClassTypeV c) \<Rightarrow> True | _ \<Rightarrow> False)"

text \<open>\<open>checkIndexTypeFromType\<close>.\<close>

definition checkIndexTypeFromType ::
  "Env \<Rightarrow> TypeId \<Rightarrow> Name \<Rightarrow> Location \<Rightarrow> ValueContext \<Rightarrow> TypeId \<Rightarrow> TC \<Rightarrow> TC outcome" where
  "checkIndexTypeFromType env tableTy prop location ctx astIndexExprType tc =
     (let (norm, tc1) = normalize env tableTy tc
      in case norm of
           None \<Rightarrow> reportError env NormalizationTooComplex location tc1
         | Some n \<Rightarrow>
             andThen (fetchComponents env prop location astIndexExprType n tc1)
               (\<lambda>(foundOneProp, typesMissingTheProp, tc2).
                  if typesMissingTheProp \<noteq> [] then
                    if foundOneProp then
                      reportError env (MissingUnionProperty tableTy typesMissingTheProp prop) location tc2
                    else if ctx = LValue \<and> \<not> isClassType (heap tc2) tableTy
                    then reportError env (CannotExtendTable tableTy CET_Property prop) location tc2
                    else reportError env (UnknownProperty tableTy prop) location tc2
                  else returns tc2))"

subsection \<open>The components of a receiver\<close>

text \<open>
  The components of a normal form in the order in which \<open>checkIndexTypeFromType\<close> goes
  through them: a type that the normal form holds (\<open>Plain\<close>), the function parts when
  there are several (\<open>Parts\<close>), and a type variable with its bound (\<open>Tyvar\<close>).
\<close>

datatype Component = Plain TypeId | Parts "TypeId list" | Tyvar TypeId NormalizedType

definition components :: "Env \<Rightarrow> NormalizedType \<Rightarrow> Component list" where
  "components env norm =
     [Plain (tops norm), Plain (booleans norm)] @ map Plain (classes norm) @
     [Plain (errors norm), Plain (nils norm), Plain (numbers norm)] @
     (if \<not> strings_isNever norm then [Plain (stringType (builtinTypes env))] else []) @
     [Plain (threads norm)] @ map Plain (tables norm) @
     (if functions_isTop norm then [Plain (functionType (builtinTypes env))]
      else if \<not> functions_isNever norm then
        (case functions_parts norm of [part] \<Rightarrow> [Plain part] | parts \<Rightarrow> [Parts parts])
      else []) @
     map (\<lambda>(tyvar, intersect). Tyvar tyvar intersect) (tyvars norm)"

text \<open>
  The type that stands for a component when its turn comes: the type itself; the
  intersection of the function parts, allocated in the test arena; for a type variable the
  intersection of the variable and its bound, allocated in the test arena, when the top of
  the bound is \<open>never\<close>, and the variable otherwise.
\<close>

definition componentType :: "Env \<Rightarrow> Component \<Rightarrow> TC \<Rightarrow> TypeId \<times> TC" where
  "componentType env c tc =
     (case c of
        Plain ty \<Rightarrow> (ty, tc)
      | Parts parts \<Rightarrow> liftHeap (addType (IntersectionTypeV parts)) tc
      | Tyvar tyvar intersect \<Rightarrow>
          if getVariant (heap tc) (tops intersect) = Some NeverTypeV then
            (let (t, tc1) = typeFromNormal env intersect tc
             in liftHeap (addType (IntersectionTypeV [tyvar, t])) tc1)
          else (tyvar, tc))"

text \<open>
  The claim's reading of the lookup, to be compared with \<open>fetch\<close>: the components are
  taken in turn; one that is not inhabited is passed over; for an inhabited one
  \<open>hasIndexTypeFromType\<close>, started with nothing seen, says whether it carries the
  property.  The result lists the inhabited components, each with that answer.
\<close>

fun carriers ::
  "Env \<Rightarrow> Name \<Rightarrow> Location \<Rightarrow> TypeId \<Rightarrow> Component list \<Rightarrow> TC \<Rightarrow> ((TypeId \<times> bool) list \<times> TC) outcome" where
  "carriers env prop location astIndexExprType [] tc = returns ([], tc)"
| "carriers env prop location astIndexExprType (c # cs) tc =
     (let (ty, tc1) = componentType env c tc;
          (inhabited, tc2) = isInhabited env ty tc1
      in if \<not> inhabited then carriers env prop location astIndexExprType cs tc2
         else
           andThen (hasIndexTypeFromType env ty prop location {} astIndexExprType tc2)
             (\<lambda>(found, seen, tc3).
                andThen (carriers env prop location astIndexExprType cs tc3)
                  (\<lambda>(rest, tc4). returns ((ty, found) # rest, tc4))))"

text \<open>
  The state of the \<open>fetch\<close> calls that these answers amount to: \<open>foundOneProp\<close> has
  become true if some listed component carries the property, and \<open>typesMissingTheProp\<close>
  has gained, in order, the listed components that do not.
\<close>

definition fetched ::
  "Env \<Rightarrow> Name \<Rightarrow> Location \<Rightarrow> TypeId \<Rightarrow> Component list \<Rightarrow> bool \<times> TypeId list \<times> TC \<Rightarrow>
   (bool \<times> TypeId list \<times> TC) outcome" where
  "fetched env prop location astIndexExprType cs st =
     (case st of (foundOneProp, typesMissingTheProp, tc) \<Rightarrow>
        andThen (carriers env prop location astIndexExprType cs tc)
          (\<lambda>(answers, tc').
             returns (foundOneProp \<or> list_ex snd answers,
                      typesMissingTheProp @ map fst (filter (\<lambda>a. \<not> snd a) answers),
                      tc')))"

subsection \<open>A small module to run the validator on\<close>

text \<open>
  The builtin nodes, all persistent: \<open>nil\<close>, \<open>boolean\<close>, \<open>number\<close>, \<open>string\<close>,
  \<open>function\<close>, \<open>any\<close>, the error type, \<open>never\<close> and \<open>unknown\<close>, at the addresses 0 to 8.
\<close>

definition persistentNode :: "TypeVariant \<Rightarrow> Type" where
  "persistentNode v = \<lparr>Type_ty = v, persistent = True, documentationSymbol = None\<rparr>"

definition localNode :: "TypeVariant \<Rightarrow> Type" where
  "localNode v = \<lparr>Type_ty = v, persistent = False, documentationSymbol = None\<rparr>"

definition localPack :: "TypePackVariant \<Rightarrow> TypePackVar" where
  "localPack v = \<lparr>TypePackVar_ty = v, tp_persistent = False\<rparr>"

definition builtinNodes :: "Type list" where
  "builtinNodes =
     [persistentNode (PrimitiveTypeV PrimNil), persistentNode (PrimitiveTypeV PrimBoolean),
      persistentNode (PrimitiveTypeV PrimNumber), persistentNode (PrimitiveTypeV PrimString),
      persistentNode (PrimitiveTypeV PrimFunction), persistentNode AnyTypeV,
      persistentNode ErrorTypeV, persistentNode NeverTypeV, persistentNode UnknownTypeV]"

definition testBuiltins :: BuiltinTypes where
  "testBuiltins =
     \<lparr>nilType = 0, booleanType = 1, numberType = 2, stringType = 3, functionType = 4,
      anyType = 5, errorType = 6\<rparr>"

text \<open>
  Modelled from the spec: \<open>Unifier::tryUnify\<close> (\<open>Luau/Unifier.h\<close>) is not among the
  sources.  This is the part of the contract of section 4.B that concerns identical types
  and the absorbers: a type unifies with itself; \<open>any\<close> and the error type are below and
  above everything; \<open>never\<close> is below everything and \<open>unknown\<close> above everything; the log
  stays empty.  The structural rules are not modelled: every other pair is a mismatch.
\<close>

definition specUnify ::
  "Heap \<Rightarrow> Scope \<Rightarrow> Location \<Rightarrow> bool \<Rightarrow> TypeId \<Rightarrow> TypeId \<Rightarrow> TypeError list \<times> bool" where
  "specUnify h scope location genericsOkay subTy superTy =
     (if subTy = superTy \<or>
         getVariant h subTy = Some AnyTypeV \<or> getVariant h subTy = Some ErrorTypeV \<or>
         getVariant h subTy = Some NeverTypeV \<or>
         getVariant h superTy = Some AnyTypeV \<or> getVariant h superTy = Some ErrorTypeV \<or>
         getVariant h superTy = Some UnknownTypeV
      then ([], True)
      else ([TypeError location ''test'' (TypeMismatch superTy subTy)], True))"

definition lookupProp :: "(Name \<times> Property) list \<Rightarrow> Name \<Rightarrow> TypeId option" where
  "lookupProp ps n = (case map_of ps n of Some p \<Rightarrow> readTy p | None \<Rightarrow> None)"

definition testMetatable :: "Heap \<Rightarrow> TypeId \<Rightarrow> TypeId option" where
  "testMetatable h t = (case getVariant h t of Some (MetatableTypeV tbl mt) \<Rightarrow> mt | _ \<Rightarrow> None)"

definition testMetatableEntry :: "Heap \<Rightarrow> TypeId \<Rightarrow> string \<Rightarrow> Location \<Rightarrow> TypeId option \<times> TypeError list" where
  "testMetatableEntry h t n location =
     (case testMetatable h t of
        Some mt \<Rightarrow> (case getVariant h mt of Some (TableTypeV tt) \<Rightarrow> (lookupProp (props tt) n, []) | _ \<Rightarrow> (None, []))
      | None \<Rightarrow> (None, []))"

definition testFirst :: "Heap \<Rightarrow> TypePackId option \<Rightarrow> TypeId option" where
  "testFirst h p =
     (case p of
        None \<Rightarrow> None
      | Some a \<Rightarrow>
          (case lookupPackNode h a of
             Some n \<Rightarrow> (case TypePackVar_ty n of TypePackV (x # xs) rest \<Rightarrow> Some x | _ \<Rightarrow> None)
           | None \<Rightarrow> None))"

definition testTableType :: "Heap \<Rightarrow> TypeId \<Rightarrow> TableType option" where
  "testTableType h t = (case getVariant h t of Some (TableTypeV tt) \<Rightarrow> Some tt | _ \<Rightarrow> None)"

text \<open>
  The normal form of a type of the small module: a table is the one table of its normal
  form, a union contributes its options as the tables, and every other type is its own
  top; every other slot holds \<open>never\<close>.
\<close>

definition testNormalize :: "TypeId \<Rightarrow> TC \<Rightarrow> NormalizedType option \<times> TC" where
  "testNormalize t tc =
     (Some (NormalizedType
         (case getVariant (heap tc) t of Some (TableTypeV tt) \<Rightarrow> 7 | Some (UnionTypeV os) \<Rightarrow> 7 | _ \<Rightarrow> t)
         7 [] 7 7 7 True 7
         (case getVariant (heap tc) t of
            Some (TableTypeV tt) \<Rightarrow> [t]
          | Some (UnionTypeV os) \<Rightarrow> os
          | _ \<Rightarrow> [])
         False True [] []
         (getVariant (heap tc) t = Some (PrimitiveTypeV PrimNumber))
         (getVariant (heap tc) t = Some (PrimitiveTypeV PrimString))), tc)"

text \<open>The numbering of the operators in the order in which the model lists them.\<close>

definition testOpNumber :: "AstExprBinary_Op \<Rightarrow> nat" where
  "testOpNumber op =
     (case op of
        Add \<Rightarrow> 0 | Sub \<Rightarrow> 1 | Mul \<Rightarrow> 2 | Div \<Rightarrow> 3 | Mod \<Rightarrow> 4 | Pow \<Rightarrow> 5 | Concat \<Rightarrow> 6
      | CompareNe \<Rightarrow> 7 | CompareEq \<Rightarrow> 8 | CompareLt \<Rightarrow> 9 | CompareLe \<Rightarrow> 10
      | CompareGt \<Rightarrow> 11 | CompareGe \<Rightarrow> 12 | And \<Rightarrow> 13 | Or \<Rightarrow> 14)"

definition testMetamethods :: "AstExprBinary_Op \<Rightarrow> string option" where
  "testMetamethods op =
     (case op of
        CompareEq \<Rightarrow> Some ''__eq'' | CompareNe \<Rightarrow> Some ''__eq''
      | CompareLt \<Rightarrow> Some ''__lt'' | CompareGe \<Rightarrow> Some ''__lt''
      | CompareLe \<Rightarrow> Some ''__le'' | CompareGt \<Rightarrow> Some ''__le''
      | Add \<Rightarrow> Some ''__add'' | Sub \<Rightarrow> Some ''__sub'' | Mul \<Rightarrow> Some ''__mul''
      | Div \<Rightarrow> Some ''__div'' | Mod \<Rightarrow> Some ''__mod'' | Pow \<Rightarrow> Some ''__pow''
      | Concat \<Rightarrow> Some ''__concat'' | _ \<Rightarrow> None)"

text \<open>
  The environment of the small module: \<open>astTypes\<close> and \<open>astResolvedTypes\<close> give the stored
  type of every expression and annotation; sub-visits and lookups report nothing; there
  are no bound types, so \<open>follow\<close> is the identity.
\<close>

definition testEnv :: "(nat \<Rightarrow> TypeId) \<Rightarrow> (nat \<Rightarrow> TypeId) \<Rightarrow> Env" where
  "testEnv astTypes astResolvedTypes =
     \<lparr>builtinTypes = testBuiltins,
      moduleName = ''test'',
      hasLogger = False,
      visitExpr = (\<lambda>e c tc. returns tc),
      visitType = (\<lambda>a tc. returns tc),
      lookupType = (\<lambda>e tc. returns (astTypes (expr_id e), tc)),
      lookupAnnotation = (\<lambda>a tc. returns (astResolvedTypes (type_id a), tc)),
      checkForInternalFamily = (\<lambda>t l tc. returns tc),
      Unifier_tryUnify = specUnify,
      follow = (\<lambda>h t. t),
      first = testFirst,
      isString = (\<lambda>h t. getVariant h t = Some (PrimitiveTypeV PrimString)),
      isBoolean = (\<lambda>h t. getVariant h t = Some (PrimitiveTypeV PrimBoolean)),
      stripNil = (\<lambda>t tc. (t, tc)),
      getMetatable = testMetatable,
      findMetatableEntry = testMetatableEntry,
      getIdentifierOfBaseVar = (\<lambda>e. None),
      normalize = testNormalize,
      isIntersectionInhabited = (\<lambda>a b tc. (a = b, tc)),
      isInhabited = (\<lambda>t tc. (getVariant (heap tc) t \<noteq> Some NeverTypeV, tc)),
      typeFromNormal = (\<lambda>n tc. (tops n, tc)),
      toString_type = (\<lambda>h t. ''t''),
      toString_op = (\<lambda>op. ''op''),
      kBinaryOpMetamethods = testMetamethods,
      opNumber = testOpNumber,
      getTableType = testTableType,
      findTablePropertyRespectingMeta =
        (\<lambda>h t n l. case testTableType h t of Some tt \<Rightarrow> (lookupProp (props tt) n, []) | None \<Rightarrow> (None, [])),
      lookupClassProp = (\<lambda>h c n. map_of (cls_props c) n),
      unionIterate = (\<lambda>h os. os),
      isPrim = (\<lambda>h t k. getVariant h t = Some (PrimitiveTypeV k))\<rparr>"

definition testTC :: "Type list \<Rightarrow> TypePackVar list \<Rightarrow> (nat \<Rightarrow> TypeId option) \<Rightarrow> TC" where
  "testTC extraTypes packs overloads =
     \<lparr>heap = \<lparr>types = builtinNodes @ extraTypes, typePacks = packs\<rparr>,
      module_errors = [], astOverloadResolvedTypes = overloads, logged = []\<rparr>"

definition emptyTable :: TableType where
  "emptyTable =
     \<lparr>props = [], indexer = None, state = Sealed, tbl_level = TypeLevel 0 0, boundTo = None,
      instantiatedTypeParams = [], instantiatedTypePackParams = [], definitionModuleName = [],
      definitionLocation = Location (Position 0 0) (Position 0 0), tbl_tags = []\<rparr>"

definition plainProperty :: "TypeId \<Rightarrow> Property" where
  "plainProperty t =
     \<lparr>readTy = Some t, writeTy = Some t, deprecated = False, deprecatedSuggestion = [],
      prop_location = None, prop_tags = [], prop_documentationSymbol = None\<rparr>"

text \<open>
  A table with a metatable whose \<open>__lt\<close> returns nothing, as in
  \<^verbatim>\<open>setmetatable({}, {__lt = function(a, b) end})\<close>: the table (9), its metatable (10), the
  metamethod (11) from the pack \<open>(12, 12)\<close> to the empty pack, and the metatable type (12).
\<close>

definition ltNodes :: "Type list" where
  "ltNodes =
     [localNode (TableTypeV emptyTable),
      localNode (TableTypeV (emptyTable\<lparr>props := [(''__lt'', plainProperty 11)]\<rparr>)),
      localNode (FunctionTypeV (mkFunctionType 0 1)),
      localNode (MetatableTypeV (Some 9) (Some 10))]"

definition ltPacks :: "TypePackVar list" where
  "ltPacks = [localPack (TypePackV [12, 12] None), localPack (TypePackV [] None)]"

text \<open>The expression \<open>a < b\<close>: \<open>a\<close> is node 1, \<open>b\<close> node 2 and the comparison node 3.\<close>

definition ltExpr :: AstExprBinary where
  "ltExpr =
     \<lparr>bin_self = AstExpr 3 (Location (Position 1 0) (Position 1 5)), bin_op = CompareLt,
      bin_left = AstExpr 1 (Location (Position 1 0) (Position 1 1)),
      bin_right = AstExpr 2 (Location (Position 1 4) (Position 1 5))\<rparr>"

definition assertionExpr :: AstExprTypeAssertion where
  "assertionExpr =
     \<lparr>asr_self = AstExpr 2 (Location (Position 1 0) (Position 1 11)),
      asr_expr = AstExpr 1 (Location (Position 1 0) (Position 1 1)),
      asr_annotation = AstType 1 (Location (Position 1 5) (Position 1 11))\<rparr>"

text \<open>A table with the single property \<open>Foo\<close> of type \<open>number\<close>, at address 9.\<close>

definition fooNodes :: "Type list" where
  "fooNodes = [localNode (TableTypeV (emptyTable\<lparr>props := [(''Foo'', plainProperty 2)]\<rparr>))]"

text \<open>The union (11) of a table with the property \<open>Foo\<close> (9) and an empty table (10).\<close>

definition unionNodes :: "Type list" where
  "unionNodes =
     [localNode (TableTypeV (emptyTable\<lparr>props := [(''Foo'', plainProperty 2)]\<rparr>)),
      localNode (TableTypeV emptyTable),
      localNode (UnionTypeV [9, 10])]"

definition loc0 :: Location where
  "loc0 = Location (Position 0 0) (Position 0 0)"

definition testLocation :: "nat \<Rightarrow> Location" where
  "testLocation n = Location (Position 1 n) (Position 1 (n + 1))"

subsection \<open>Type graphs to run the cloner on\<close>

text \<open>A fresh \<open>CloneState\<close> and an empty destination arena over the given nodes.\<close>

definition freshWorld :: "Type list \<Rightarrow> TypePackVar list \<Rightarrow> CloneWorld" where
  "freshWorld ts ps =
     \<lparr>cw_heap = \<lparr>types = ts, typePacks = ps\<rparr>, destTypes = [], destTypePacks = [],
      seenTypes = (\<lambda>t. None), seenTypePacks = (\<lambda>p. None), recursionCount = 0\<rparr>"

text \<open>
  Two limiters to run the cloner with.  Both count the calls: the constructor adds one to
  the counter and the destructor takes one off.  \<open>countingLimiter\<close> lets every call
  through.  The constructor of \<open>raisingLimiter\<close> does not return when the limit is positive
  and the call would take the counter above it; the counter is then as it was.
\<close>

definition countingLimiter :: Limiter where
  "countingLimiter =
     \<lparr>construct = (\<lambda>limit count. Inr (count + 1)),
      destruct = (\<lambda>limit entered count. count - 1)\<rparr>"


text \<open>The builtin nodes with one persistent pack, the pack \<open>(number)\<close>.\<close>

definition builtinWorld :: CloneWorld where
  "builtinWorld =
     freshWorld builtinNodes [\<lparr>TypePackVar_ty = TypePackV [2] None, tp_persistent = True\<rparr>]"


text \<open>
  The recursive type \<^verbatim>\<open>type T = { next: T? }\<close> seen from its union: node 0 is the union of
  node 1 and \<open>nil\<close>, node 1 is the table whose property \<open>next\<close> is node 0, node 2 is
  \<open>nil\<close>.  No node is persistent.
\<close>

definition listNodes :: "Type list" where
  "listNodes =
     [localNode (UnionTypeV [1, 2]),
      localNode (TableTypeV (emptyTable\<lparr>props := [(''next'', plainProperty 0)]\<rparr>)),
      localNode (PrimitiveTypeV PrimNil)]"

text \<open>A union that is its own only option.  It is not persistent.\<close>

definition selfUnionNodes :: "Type list" where
  "selfUnionNodes = [localNode (UnionTypeV [0])]"

text \<open>What a test reads off a result: the returned address and the variants of all nodes.\<close>

definition resultOf :: "nat cres \<Rightarrow> (nat \<times> TypeVariant list) option" where
  "resultOf r = (case r of Ok x w \<Rightarrow> Some (x, map Type_ty (types (cw_heap w))) | _ \<Rightarrow> None)"

text \<open>The state satisfies \<open>P\<close> however the call has ended.\<close>

definition afterwards :: "(CloneWorld \<Rightarrow> bool) \<Rightarrow> 'a cres \<Rightarrow> bool" where
  "afterwards P r = (case r of OutOfFuel \<Rightarrow> True | Throw e w \<Rightarrow> P w | Ok x w \<Rightarrow> P w)"

text \<open>No node is an error type and no pack is an error pack.\<close>

definition noErrorNode :: "CloneWorld \<Rightarrow> bool" where
  "noErrorNode w =
     (ErrorTypeV \<notin> set (map Type_ty (types (cw_heap w))) \<and>
      ErrorTypePackV \<notin> set (map TypePackVar_ty (typePacks (cw_heap w))))"

section \<open>Properties of the frontend helpers\<close>

lemma strcmp_refl: "strcmp s s = 0"
  by (induction s) simp_all

text \<open>
  C10.  \<open>IsMTAScriptTypeMatched\<close> is commutative, and it holds exactly when at least one
  side is \<open>Shared\<close> or the two script types are equal.
\<close>

theorem IsMTAScriptTypeMatched_commutative_and_characterised:
  "IsMTAScriptTypeMatched a b = IsMTAScriptTypeMatched b a \<and>
   IsMTAScriptTypeMatched a b = (a = Shared \<or> b = Shared \<or> a = b)"
  by (auto simp: IsMTAScriptTypeMatched_def)

text \<open>
  C9.  \<open>getCompileFormat\<close> has two identical branches for the name \<open>"text"\<close>; it agrees
  with the folded chain on every input string, and both map \<open>"text"\<close> to
  \<open>CompileFormat::Text\<close>.
\<close>

theorem getCompileFormat_eq_folded:
  "getCompileFormat name = getCompileFormat_folded name \<and>
   getCompileFormat ''text'' = Some Text \<and>
   getCompileFormat_folded ''text'' = Some Text"
  by (simp add: getCompileFormat_def getCompileFormat_folded_def)


section \<open>Properties of the validator\<close>

lemma andThen_returns [simp]: "andThen (returns x) f = f x"
  by (simp add: andThen_def returns_def)

lemma reportError_plain:
  "(case d of UnknownProperty t k \<Rightarrow> False | _ \<Rightarrow> True) \<Longrightarrow>
   reportError env d location tc = returns (recordError env d location tc)"
  by (cases d) (simp_all add: reportError_def)

lemmas testHeap_defs =
  getVariant_def lookupTypeNode_def lookupPackNode_def builtinNodes_def persistentNode_def
  localNode_def localPack_def testTC_def testBuiltins_def

text \<open>
  C4.  A type assertion \<open>expr :: T\<close> whose sub-visits and lookups return reports nothing
  when the annotation is a subtype of the computed type or the computed type is a subtype
  of the annotation (both with generics treated as free), and otherwise records exactly one
  error, \<open>TypesAreUnrelated\<close> of the computed and the annotation type, at the location of
  the assertion.
\<close>

theorem visit_AstExprTypeAssertion_reports:
  assumes "visitExpr env (asr_expr expr) RValue tc = returns tcA"
      and "visitType env (asr_annotation expr) tcA = returns tcB"
      and "lookupAnnotation env (asr_annotation expr) tcB = returns (annotationType, tcC)"
      and "lookupType env (asr_expr expr) tcC = returns (computedType, tcD)"
  shows "visit_AstExprTypeAssertion env scope expr tc =
           returns
             (if isSubtype env scope annotationType computedType True tcD \<or>
                 isSubtype env scope computedType annotationType True tcD
              then tcD
              else recordError env (TypesAreUnrelated computedType annotationType)
                     (expr_location (asr_self expr)) tcD)"
  using assms by (simp add: visit_AstExprTypeAssertion_def reportError_plain)

theorem visit_AstExprTypeAssertion_reports_witness:
  "visit_AstExprTypeAssertion (testEnv (\<lambda>i. 3) (\<lambda>i. 2)) 0 assertionExpr (testTC [] [] (\<lambda>k. None)) =
     returns ((testTC [] [] (\<lambda>k. None))
       \<lparr>module_errors :=
          [TypeError (Location (Position 1 0) (Position 1 11)) ''test'' (TypesAreUnrelated 3 2)]\<rparr>) \<and>
   visit_AstExprTypeAssertion (testEnv (\<lambda>i. 5) (\<lambda>i. 2)) 0 assertionExpr (testTC [] [] (\<lambda>k. None)) =
     returns (testTC [] [] (\<lambda>k. None))"
proof -
  let ?tc = "testTC [] [] (\<lambda>k. None)"
  have a: "visit_AstExprTypeAssertion (testEnv (\<lambda>i. 3) (\<lambda>i. 2)) 0 assertionExpr ?tc =
     returns (?tc\<lparr>module_errors :=
        [TypeError (Location (Position 1 0) (Position 1 11)) ''test'' (TypesAreUnrelated 3 2)]\<rparr>)"
    using visit_AstExprTypeAssertion_reports
      [where env="testEnv (\<lambda>i. 3) (\<lambda>i. 2)" and expr=assertionExpr and tc="?tc" and tcA="?tc"
         and tcB="?tc" and tcC="?tc" and tcD="?tc" and annotationType=2 and computedType=3 and scope=0]
    by (simp add: testEnv_def assertionExpr_def isSubtype_def specUnify_def testHeap_defs recordError_def)
  have b: "visit_AstExprTypeAssertion (testEnv (\<lambda>i. 5) (\<lambda>i. 2)) 0 assertionExpr ?tc = returns ?tc"
    using visit_AstExprTypeAssertion_reports
      [where env="testEnv (\<lambda>i. 5) (\<lambda>i. 2)" and expr=assertionExpr and tc="?tc" and tcA="?tc"
         and tcB="?tc" and tcC="?tc" and tcD="?tc" and annotationType=2 and computedType=5 and scope=0]
    by (simp add: testEnv_def assertionExpr_def isSubtype_def specUnify_def testHeap_defs recordError_def)
  show ?thesis using a b by simp
qed

text \<open>
  C8, as stated, fails: the visit of the literal \<open>nil\<close> accepts the stored type \<open>never\<close>,
  which is not the primitive \<open>nil\<close>; the assertion tests subtyping, not equality.
\<close>

theorem visit_AstExprConstantNil_accepts_never:
  "lookupType (testEnv (\<lambda>i. 7) (\<lambda>i. 0)) (AstExpr 1 loc0) (testTC [] [] (\<lambda>k. None)) =
     returns (7, testTC [] [] (\<lambda>k. None)) \<and>
   visit_AstExprConstantNil (testEnv (\<lambda>i. 7) (\<lambda>i. 0)) 0 (AstExpr 1 loc0) (testTC [] [] (\<lambda>k. None)) =
     returns (testTC [] [] (\<lambda>k. None)) \<and>
   nilType (builtinTypes (testEnv (\<lambda>i. 7) (\<lambda>i. 0))) \<noteq> 7 \<and>
   getVariant (heap (testTC [] [] (\<lambda>k. None))) 7 \<noteq>
     getVariant (heap (testTC [] [] (\<lambda>k. None))) (nilType (builtinTypes (testEnv (\<lambda>i. 7) (\<lambda>i. 0))))"
  by (simp add: visit_AstExprConstantNil_def visitConstant_def testEnv_def isSubtype_def specUnify_def
      testHeap_defs)

text \<open>
  C8, amended.  For a constant literal whose lookup returns, the visit asserts that the
  stored type is a subtype (\<open>isSubtype\<close>, generics not treated as free) of the primitive
  of the literal's kind: it returns with the state unchanged, reporting nothing, when the
  test holds, and the assertion fails when it does not.  When the stored type is that
  primitive, as the inference engine leaves it, and the unifier accepts a type against
  itself, the assertion does not fail.
\<close>

theorem visitConstant_asserts_subtype:
  assumes "lookupType env expr tc = returns (actualType, tcA)"
  shows "visit_AstExprConstantNil env scope expr tc =
           (if isSubtype env scope actualType (nilType (builtinTypes env)) False tcA
            then returns tcA else assertFailed) \<and>
         visit_AstExprConstantBool env scope expr tc =
           (if isSubtype env scope actualType (booleanType (builtinTypes env)) False tcA
            then returns tcA else assertFailed) \<and>
         visit_AstExprConstantNumber env scope expr tc =
           (if isSubtype env scope actualType (numberType (builtinTypes env)) False tcA
            then returns tcA else assertFailed) \<and>
         visit_AstExprConstantString env scope expr tc =
           (if isSubtype env scope actualType (stringType (builtinTypes env)) False tcA
            then returns tcA else assertFailed) \<and>
         ((\<forall>location. Unifier_tryUnify env (heap tcA) scope location False actualType actualType = ([], True)) \<longrightarrow>
            (actualType = nilType (builtinTypes env) \<longrightarrow>
               visit_AstExprConstantNil env scope expr tc = returns tcA) \<and>
            (actualType = booleanType (builtinTypes env) \<longrightarrow>
               visit_AstExprConstantBool env scope expr tc = returns tcA) \<and>
            (actualType = numberType (builtinTypes env) \<longrightarrow>
               visit_AstExprConstantNumber env scope expr tc = returns tcA) \<and>
            (actualType = stringType (builtinTypes env) \<longrightarrow>
               visit_AstExprConstantString env scope expr tc = returns tcA))"
  using assms
  by (auto simp: visit_AstExprConstantNil_def visit_AstExprConstantBool_def
      visit_AstExprConstantNumber_def visit_AstExprConstantString_def visitConstant_def isSubtype_def)

theorem visitConstant_asserts_subtype_witness:
  "visit_AstExprConstantNil (testEnv (\<lambda>i. 0) (\<lambda>i. 0)) 0 (AstExpr 1 loc0) (testTC [] [] (\<lambda>k. None)) =
     returns (testTC [] [] (\<lambda>k. None)) \<and>
   visit_AstExprConstantNumber (testEnv (\<lambda>i. 0) (\<lambda>i. 0)) 0 (AstExpr 1 loc0) (testTC [] [] (\<lambda>k. None)) =
     assertFailed \<and>
   lookupType (testEnv (\<lambda>i. 0) (\<lambda>i. 0)) (AstExpr 1 loc0) (testTC [] [] (\<lambda>k. None)) =
     returns (nilType (builtinTypes (testEnv (\<lambda>i. 0) (\<lambda>i. 0))), testTC [] [] (\<lambda>k. None)) \<and>
   Unifier_tryUnify (testEnv (\<lambda>i. 0) (\<lambda>i. 0)) (heap (testTC [] [] (\<lambda>k. None))) 0 loc0 False 0 0 = ([], True)"
proof -
  let ?E = "testEnv (\<lambda>i. 0) (\<lambda>i. 0)"
  let ?T = "testTC [] [] (\<lambda>k. None)"
  have look: "lookupType ?E (AstExpr 1 loc0) ?T = returns (0, ?T)"
    by (simp add: testEnv_def)
  have refl: "\<forall>location. Unifier_tryUnify ?E (heap ?T) 0 location False 0 0 = ([], True)"
    by (simp add: testEnv_def specUnify_def)
  have nil: "nilType (builtinTypes ?E) = 0"
    by (simp add: testEnv_def testBuiltins_def)
  have notnum: "\<not> isSubtype ?E 0 0 (numberType (builtinTypes ?E)) False ?T"
    by (simp add: testEnv_def isSubtype_def specUnify_def testHeap_defs)
  note w = visitConstant_asserts_subtype [OF look, of 0]
  have a: "visit_AstExprConstantNil ?E 0 (AstExpr 1 loc0) ?T = returns ?T"
    using w refl nil [symmetric] by (elim conjE) (erule impE, assumption, simp)
  have b: "visit_AstExprConstantNumber ?E 0 (AstExpr 1 loc0) ?T = assertFailed"
    using w notnum by simp
  show ?thesis using a b look nil refl by simp
qed

text \<open>
  C6, as stated, fails: in \<open>a < b\<close> with \<open>a\<close> of type \<open>any\<close> (no metatable, no metamethod,
  a normal form that is neither exactly \<open>number\<close> nor below \<open>string\<close>) the visit returns
  \<open>any\<close> and reports nothing.
\<close>

theorem visit_AstExprBinary_any_is_silent:
  "visit_AstExprBinary (testEnv (\<lambda>i. if i = 1 then 5 else 2) (\<lambda>i. 0)) 0 ltExpr None (testTC [] [] (\<lambda>k. None)) =
     returns (5, testTC [] [] (\<lambda>k. None)) \<and>
   bin_op ltExpr = CompareLt \<and>
   lookupType (testEnv (\<lambda>i. if i = 1 then 5 else 2) (\<lambda>i. 0)) (bin_left ltExpr) (testTC [] [] (\<lambda>k. None)) =
     returns (5, testTC [] [] (\<lambda>k. None)) \<and>
   getMetatable (testEnv (\<lambda>i. if i = 1 then 5 else 2) (\<lambda>i. 0)) (heap (testTC [] [] (\<lambda>k. None))) 5 = None \<and>
   (case fst (normalize (testEnv (\<lambda>i. if i = 1 then 5 else 2) (\<lambda>i. 0)) 5 (testTC [] [] (\<lambda>k. None))) of
      Some n \<Rightarrow> \<not> exactlyNumber n \<and> \<not> subtypeOfString n | None \<Rightarrow> False) \<and>
   module_errors (testTC [] [] (\<lambda>k. None)) = []"
  by (simp add: visit_AstExprBinary_def testEnv_def ltExpr_def testHeap_defs
      isTypeFamilyInstance_def isAnyErrorNever_def testNormalize_def testMetatable_def)

text \<open>
  C6, amended.  A relational comparison reaches the operator switch when its sub-visits
  and lookups return, the stored result is not a type family instance, neither operand is
  \<open>any\<close>, the error type or \<open>never\<close>, the left operand is not blocked, free or generic,
  and the metamethod block falls through.  Then the validator normalizes the left operand:
  if the normal form is exactly \<open>number\<close> the errors of unifying the right operand with
  \<open>number\<close> are reported and the result is \<open>number\<close>; otherwise, if it is a subtype of
  \<open>string\<close>, the same with \<open>string\<close>; otherwise (also when normalization fails) one
  \<open>GenericError\<close> that the types cannot be compared is recorded at the expression and the
  result is the error type.
\<close>

theorem visit_AstExprBinary_relational:
  assumes "bin_op expr \<in> {CompareLt, CompareLe, CompareGt, CompareGe}"
      and "visitExpr env (bin_left expr) LValue tc = returns tcA"
      and "visitExpr env (bin_right expr) LValue tcA = returns tcB"
      and "lookupType env (bin_left expr) tcB = returns (leftType, tcC)"
      and "lookupType env (bin_right expr) tcC = returns (rightType, tcD)"
      and "lookupType env (bin_self expr) tcD = returns (expectedResult, tcE)"
      and "\<not> isTypeFamilyInstance (heap tcE) expectedResult"
      and "\<not> isAnyErrorNever (heap tcE) leftType"
      and "\<not> isAnyErrorNever (heap tcE) rightType"
      and "\<not> isBlockedFreeGeneric (heap tcE) leftType"
      and "isIntersectionInhabited env leftType rightType tcE = (typesHaveIntersection, tcF)"
      and "binaryMetamethodBlock env scope expr overrideKey leftType rightType expectedResult
             typesHaveIntersection
             (isString env (heap tcE) leftType \<and> isString env (heap tcE) rightType) tcF = returns (Inr tcG)"
      and "normalize env leftType tcG = (leftTyNorm, tcH)"
  shows "visit_AstExprBinary env scope expr overrideKey tc =
           (if (case leftTyNorm of Some n \<Rightarrow> exactlyNumber n | None \<Rightarrow> False) then
              andThen (reportErrors env
                         (tryUnify env scope (expr_location (bin_right expr)) rightType
                            (numberType (builtinTypes env)) tcH) tcH)
                (\<lambda>tcI. returns (numberType (builtinTypes env), tcI))
            else if (case leftTyNorm of Some n \<Rightarrow> subtypeOfString n | None \<Rightarrow> False) then
              andThen (reportErrors env
                         (tryUnify env scope (expr_location (bin_right expr)) rightType
                            (stringType (builtinTypes env)) tcH) tcH)
                (\<lambda>tcI. returns (stringType (builtinTypes env), tcI))
            else
              returns (errorType (builtinTypes env),
                recordError env
                  (GenericError (''Types '' @ quoted (toString_type env (heap tcH) leftType) @ '' and '' @
                     quoted (toString_type env (heap tcH) rightType) @
                     '' cannot be compared with relational operator '' @ toString_op env (bin_op expr)))
                  (expr_location (bin_self expr)) tcH))" (is "_ = ?rhs")
proof -
  have op: "bin_op expr \<noteq> Or" "\<not> isEqualityOp (bin_op expr)" "\<not> isLogicalOp (bin_op expr)"
    using assms(1) by (auto simp: isEqualityOp_def isLogicalOp_def)
  have prim: "binaryPrimitive env scope expr leftType rightType tcG = ?rhs"
    using assms(1,13) by (auto simp: binaryPrimitive_def Let_def reportError_plain)
  have "visit_AstExprBinary env scope expr overrideKey tc =
          binaryPrimitive env scope expr leftType rightType tcG"
    using assms(2-12) op by (simp add: visit_AstExprBinary_def Let_def)
  then show ?thesis using prim by simp
qed

theorem visit_AstExprBinary_relational_witness:
  "visit_AstExprBinary (testEnv (\<lambda>i. if i = 1 then 2 else if i = 2 then 3 else 1) (\<lambda>i. 0)) 0 ltExpr None
     (testTC [] [] (\<lambda>k. None)) =
   returns (2, (testTC [] [] (\<lambda>k. None))
     \<lparr>module_errors := [TypeError (Location (Position 1 4) (Position 1 5)) ''test'' (TypeMismatch 2 3)]\<rparr>)"
  using visit_AstExprBinary_relational
    [where env="testEnv (\<lambda>i. if i = 1 then 2 else if i = 2 then 3 else 1) (\<lambda>i. 0)" and expr=ltExpr
       and tc="testTC [] [] (\<lambda>k. None)" and tcA="testTC [] [] (\<lambda>k. None)" and tcB="testTC [] [] (\<lambda>k. None)"
       and tcC="testTC [] [] (\<lambda>k. None)" and tcD="testTC [] [] (\<lambda>k. None)" and tcE="testTC [] [] (\<lambda>k. None)"
       and tcF="testTC [] [] (\<lambda>k. None)" and tcG="testTC [] [] (\<lambda>k. None)" and tcH="testTC [] [] (\<lambda>k. None)"
       and leftType=2 and rightType=3 and expectedResult=1 and typesHaveIntersection=False and scope=0
       and overrideKey=None
       and leftTyNorm="fst (testNormalize 2 (testTC [] [] (\<lambda>k. None)))"]
  by (simp add: testEnv_def ltExpr_def testHeap_defs
      isTypeFamilyInstance_def isAnyErrorNever_def isBlockedFreeGeneric_def
      binaryMetamethodBlock_def binaryMetamethodPhase_def testMetamethods_def metatablesMatch_def
      testMetatable_def testMetatableEntry_def isEqualityOp_def isComparisonOp_def testOpNumber_def
      testNormalize_def tryUnify_def specUnify_def reportError_plain recordError_def Let_def)


lemma synthesizeExpected_shape:
  assumes "synthesizeExpected env scope op leftType rightType tc = (expectedTy, tcC)"
  shows "\<exists>expectedArgs expectedRets.
           getVariant (heap tcC) expectedTy = Some (FunctionTypeV (mkFunctionType expectedArgs expectedRets)) \<and>
           map_option TypePackVar_ty (lookupPackNode (heap tcC) expectedArgs) =
             Some (TypePackV (if op = CompareGe \<or> op = CompareGt then [rightType, leftType]
                              else [leftType, rightType]) None) \<and>
           (if op = CompareEq \<or> op = CompareNe \<or> op = CompareLt \<or> op = CompareLe \<or>
               op = CompareGt \<or> op = CompareGe
            then map_option TypePackVar_ty (lookupPackNode (heap tcC) expectedRets) =
                   Some (TypePackV [booleanType (builtinTypes env)] None)
            else map_option TypePackVar_ty (lookupPackNode (heap tcC) expectedRets) =
                   Some (TypePackV [length (types (heap tc))] None) \<and>
                 getVariant (heap tcC) (length (types (heap tc))) =
                   Some (FreeTypeV (Some scope) (TypeLevel 0 0)))"
proof -
  let ?args = "length (typePacks (heap tc))"
  let ?cmp = "op = CompareEq \<or> op = CompareNe \<or> op = CompareLt \<or> op = CompareLe \<or>
              op = CompareGt \<or> op = CompareGe"
  show ?thesis
  proof (cases ?cmp)
    case True
    then show ?thesis
      using assms
      by (intro exI [of _ ?args] exI [of _ "Suc ?args"])
         (auto simp: synthesizeExpected_def liftHeap_def addTypePack_def addType_def
            getVariant_def lookupTypeNode_def lookupPackNode_def nth_append)
  next
    case False
    then show ?thesis
      using assms
      by (intro exI [of _ ?args] exI [of _ "Suc ?args"])
         (auto simp: synthesizeExpected_def liftHeap_def addTypePack_def addType_def
            getVariant_def lookupTypeNode_def lookupPackNode_def nth_append)
  qed
qed

lemma binaryMetamethodCall_result:
  assumes "astOverloadResolvedTypes tc (case overrideKey of Some k \<Rightarrow> k | None \<Rightarrow> expr_id (bin_self expr)) =
             Some instantiatedMm"
      and "getVariant (heap tc) (follow env (heap tc) instantiatedMm) = Some (FunctionTypeV ftv)"
      and "synthesizeExpected env scope (bin_op expr) leftType rightType tc = (expectedTy, tcC)"
      and "reportErrors env
             (tryUnify env scope (expr_location (bin_self expr)) (follow env (heap tcC) mm) expectedTy tcC) tcC =
           returns tcD"
  shows "binaryMetamethodCall env scope expr overrideKey mmName mm leftType rightType expectedResult tc =
           (case first env (heap tcD) (retTypes ftv) of
              Some ret \<Rightarrow>
                if isComparisonOp env (bin_op expr) then
                  returns (booleanType (builtinTypes env),
                           if isBoolean env (heap tcD) (follow env (heap tcD) ret) then tcD
                           else recordError env (GenericError (''Metamethod '' @ quoted mmName @ '' must return a '' @ ''boolean''))
                             (expr_location (bin_self expr)) tcD)
                else returns (follow env (heap tcD) ret, tcD)
            | None \<Rightarrow>
                returns (errorType (builtinTypes env),
                         recordError env (GenericError (''Metamethod '' @ quoted mmName @ '' must return a '' @ (if isComparisonOp env (bin_op expr) then ''boolean'' else ''value'')))
                             (expr_location (bin_self expr)) tcD))"
  using assms
  by (auto simp: binaryMetamethodCall_def Let_def reportError_plain
      split: option.splits)

lemma binaryMetamethodPhase_dispatch:
  assumes "metatablesMatch env (bin_op expr) (heap tc) leftType rightType typesHaveIntersection \<or>
           \<not> isComparisonOp env (bin_op expr)"
      and "findMetatableEntry env (heap tc) leftType mmName (expr_location (bin_left expr)) = (leftMm, errsL)"
      and "findMetatableEntry env (heap tc) rightType mmName (expr_location (bin_right expr)) = (rightMm, errsR)"
  shows "leftMm = Some mm \<Longrightarrow>
           binaryMetamethodPhase env scope expr overrideKey mmName leftType rightType expectedResult
             typesHaveIntersection isStringOperation tc =
           andThen (binaryMetamethodCall env scope expr overrideKey mmName mm leftType rightType expectedResult
                      (tc\<lparr>module_errors := module_errors tc @ errsL\<rparr>))
             (\<lambda>r. returns (Inl r))"
    and "leftMm = None \<Longrightarrow> rightMm = Some mm \<Longrightarrow>
           binaryMetamethodPhase env scope expr overrideKey mmName leftType rightType expectedResult
             typesHaveIntersection isStringOperation tc =
           andThen (binaryMetamethodCall env scope expr overrideKey mmName mm rightType leftType expectedResult
                      (tc\<lparr>module_errors := module_errors tc @ errsL @ errsR\<rparr>))
             (\<lambda>r. returns (Inl r))"
proof -
  have h: "(\<not> metatablesMatch env (bin_op expr) (heap tc) leftType rightType typesHaveIntersection \<and>
            isComparisonOp env (bin_op expr)) = False"
    using assms(1) by auto
  show "leftMm = Some mm \<Longrightarrow>
           binaryMetamethodPhase env scope expr overrideKey mmName leftType rightType expectedResult
             typesHaveIntersection isStringOperation tc =
           andThen (binaryMetamethodCall env scope expr overrideKey mmName mm leftType rightType expectedResult
                      (tc\<lparr>module_errors := module_errors tc @ errsL\<rparr>))
             (\<lambda>r. returns (Inl r))"
    using assms(2) by (simp add: binaryMetamethodPhase_def Let_def h)
  show "leftMm = None \<Longrightarrow> rightMm = Some mm \<Longrightarrow>
           binaryMetamethodPhase env scope expr overrideKey mmName leftType rightType expectedResult
             typesHaveIntersection isStringOperation tc =
           andThen (binaryMetamethodCall env scope expr overrideKey mmName mm rightType leftType expectedResult
                      (tc\<lparr>module_errors := module_errors tc @ errsL @ errsR\<rparr>))
             (\<lambda>r. returns (Inl r))"
    using assms(2,3) by (simp add: binaryMetamethodPhase_def Let_def h)
qed

text \<open>
  C7, as stated, fails: for \<open>a < b\<close> on a table whose \<open>__lt\<close> returns nothing the
  comparison resolves to the metamethod, the missing result is reported, and the type of
  the comparison is the error type (node 6), not \<open>boolean\<close> (node 1).
\<close>

theorem visit_AstExprBinary_metamethod_without_result:
  "map_option (map_sum id fst)
     (visit_AstExprBinary (testEnv (\<lambda>i. if i = 3 then 1 else 12) (\<lambda>i. 0)) 0 ltExpr None
        (testTC ltNodes ltPacks (\<lambda>k. if k = 3 then Some 11 else None))) = Some (Inr 6) \<and>
   booleanType (builtinTypes (testEnv (\<lambda>i. if i = 3 then 1 else 12) (\<lambda>i. 0))) = 1 \<and>
   isComparisonOp (testEnv (\<lambda>i. if i = 3 then 1 else 12) (\<lambda>i. 0)) (bin_op ltExpr) \<and>
   findMetatableEntry (testEnv (\<lambda>i. if i = 3 then 1 else 12) (\<lambda>i. 0))
     (heap (testTC ltNodes ltPacks (\<lambda>k. if k = 3 then Some 11 else None))) 12 ''__lt''
     (expr_location (bin_left ltExpr)) = (Some 11, [])"
  by (simp add: visit_AstExprBinary_def testEnv_def ltExpr_def testHeap_defs ltNodes_def
      isTypeFamilyInstance_def isAnyErrorNever_def isBlockedFreeGeneric_def
      binaryMetamethodBlock_def binaryMetamethodPhase_def testMetamethods_def metatablesMatch_def
      testMetatable_def testMetatableEntry_def isEqualityOp_def isLogicalOp_def isComparisonOp_def testOpNumber_def
      binaryMetamethodCall_def synthesizeExpected_def liftHeap_def addType_def addTypePack_def
      tryUnify_def specUnify_def reportError_plain recordError_def Let_def lookupProp_def plainProperty_def
      emptyTable_def testFirst_def ltPacks_def mkFunctionType_def returns_def andThen_def)

text \<open>
  C7, amended.  Let the metatables agree (or the operator not be a comparison), and let the
  operator's metamethod \<open>mm\<close> be found on the left operand or, failing that, on the right
  one; \<open>a\<close> and \<open>b\<close> are the left and the right type, exchanged when \<open>mm\<close> came from the
  right operand.  If the overload-resolved type of the expression is a function, then the
  metamethod is unified with a synthesized function type whose argument pack is \<open>(b, a)\<close>
  for \<open>>\<close> and \<open>>=\<close> and \<open>(a, b)\<close> for every other operator, and whose result pack is
  \<open>(boolean)\<close> for the six comparison operators.  When the resolved function returns a
  value and the operator is a comparison (in the numbering, between \<open>CompareEq\<close> and
  \<open>CompareGe\<close>), the result is \<open>boolean\<close>, with a \<open>GenericError\<close> when that value's type
  is not boolean; when it returns no value, a \<open>GenericError\<close> is recorded and the result
  is the error type.
\<close>

theorem binaryMetamethodPhase_comparison:
  assumes "metatablesMatch env (bin_op expr) (heap tc) leftType rightType typesHaveIntersection \<or>
           \<not> isComparisonOp env (bin_op expr)"
      and "findMetatableEntry env (heap tc) leftType mmName (expr_location (bin_left expr)) = (leftMm, errsL)"
      and "findMetatableEntry env (heap tc) rightType mmName (expr_location (bin_right expr)) = (rightMm, errsR)"
      and "leftMm = Some mm \<or> (leftMm = None \<and> rightMm = Some mm)"
      and "a = (if leftMm = None then rightType else leftType)"
      and "b = (if leftMm = None then leftType else rightType)"
      and "tcA = tc\<lparr>module_errors := module_errors tc @ errsL @ (if leftMm = None then errsR else [])\<rparr>"
      and "astOverloadResolvedTypes tcA (case overrideKey of Some k \<Rightarrow> k | None \<Rightarrow> expr_id (bin_self expr)) =
             Some instantiatedMm"
      and "getVariant (heap tcA) (follow env (heap tcA) instantiatedMm) = Some (FunctionTypeV ftv)"
      and "synthesizeExpected env scope (bin_op expr) a b tcA = (expectedTy, tcC)"
      and "reportErrors env
             (tryUnify env scope (expr_location (bin_self expr)) (follow env (heap tcC) mm) expectedTy tcC) tcC =
           returns tcD"
  shows "(\<exists>expectedArgs expectedRets.
            getVariant (heap tcC) expectedTy = Some (FunctionTypeV (mkFunctionType expectedArgs expectedRets)) \<and>
            map_option TypePackVar_ty (lookupPackNode (heap tcC) expectedArgs) =
              Some (TypePackV (if bin_op expr = CompareGe \<or> bin_op expr = CompareGt then [b, a] else [a, b]) None) \<and>
            (bin_op expr \<in> {CompareEq, CompareNe, CompareLt, CompareLe, CompareGt, CompareGe} \<longrightarrow>
             map_option TypePackVar_ty (lookupPackNode (heap tcC) expectedRets) =
               Some (TypePackV [booleanType (builtinTypes env)] None))) \<and>
         binaryMetamethodPhase env scope expr overrideKey mmName leftType rightType expectedResult
           typesHaveIntersection isStringOperation tc =
           (let mustReturn =
                  (\<lambda>what. TypeError (expr_location (bin_self expr)) (moduleName env)
                             (GenericError (''Metamethod '' @ quoted mmName @ '' must return a '' @ what)));
                recorded =
                  (\<lambda>e. tcD\<lparr>module_errors := module_errors tcD @ [e],
                             logged := if hasLogger env then logged tcD @ [e] else logged tcD\<rparr>)
            in case first env (heap tcD) (retTypes ftv) of
                 Some ret \<Rightarrow>
                   if isComparisonOp env (bin_op expr) then
                     returns (Inl (booleanType (builtinTypes env),
                                   if isBoolean env (heap tcD) (follow env (heap tcD) ret) then tcD
                                   else recorded (mustReturn ''boolean'')))
                   else returns (Inl (follow env (heap tcD) ret, tcD))
               | None \<Rightarrow>
                   returns (Inl (errorType (builtinTypes env),
                            recorded (mustReturn
                              (if isComparisonOp env (bin_op expr) then ''boolean'' else ''value'')))))"
proof -
  have shape: "\<exists>expectedArgs expectedRets.
            getVariant (heap tcC) expectedTy = Some (FunctionTypeV (mkFunctionType expectedArgs expectedRets)) \<and>
            map_option TypePackVar_ty (lookupPackNode (heap tcC) expectedArgs) =
              Some (TypePackV (if bin_op expr = CompareGe \<or> bin_op expr = CompareGt then [b, a] else [a, b]) None) \<and>
            (bin_op expr \<in> {CompareEq, CompareNe, CompareLt, CompareLe, CompareGt, CompareGe} \<longrightarrow>
             map_option TypePackVar_ty (lookupPackNode (heap tcC) expectedRets) =
               Some (TypePackV [booleanType (builtinTypes env)] None))"
    using synthesizeExpected_shape [OF assms(10)] by (fastforce split: if_splits)
  have call: "binaryMetamethodCall env scope expr overrideKey mmName mm a b expectedResult tcA =
           (case first env (heap tcD) (retTypes ftv) of
              Some ret \<Rightarrow>
                if isComparisonOp env (bin_op expr) then
                  returns (booleanType (builtinTypes env),
                           if isBoolean env (heap tcD) (follow env (heap tcD) ret) then tcD
                           else recordError env (GenericError (''Metamethod '' @ quoted mmName @ '' must return a '' @ ''boolean''))
                             (expr_location (bin_self expr)) tcD)
                else returns (follow env (heap tcD) ret, tcD)
            | None \<Rightarrow>
                returns (errorType (builtinTypes env),
                         recordError env (GenericError (''Metamethod '' @ quoted mmName @ '' must return a '' @ (if isComparisonOp env (bin_op expr) then ''boolean'' else ''value'')))
                             (expr_location (bin_self expr)) tcD))"
    by (rule binaryMetamethodCall_result [OF assms(8,9,10,11)])
  have phase: "binaryMetamethodPhase env scope expr overrideKey mmName leftType rightType expectedResult
           typesHaveIntersection isStringOperation tc =
        andThen (binaryMetamethodCall env scope expr overrideKey mmName mm a b expectedResult tcA)
          (\<lambda>r. returns (Inl r))"
  proof (cases "leftMm = None")
    case True
    then have r: "rightMm = Some mm" using assms(4) by auto
    show ?thesis
      using binaryMetamethodPhase_dispatch(2) [OF assms(1,2,3) True r] True assms(5,6,7) by simp
  next
    case False
    then have l: "leftMm = Some mm" using assms(4) by auto
    show ?thesis
      using binaryMetamethodPhase_dispatch(1) [OF assms(1,2,3) l] l assms(5,6,7) by simp
  qed
  have result: "binaryMetamethodPhase env scope expr overrideKey mmName leftType rightType expectedResult
           typesHaveIntersection isStringOperation tc =
           (let mustReturn =
                  (\<lambda>what. TypeError (expr_location (bin_self expr)) (moduleName env)
                             (GenericError (''Metamethod '' @ quoted mmName @ '' must return a '' @ what)));
                recorded =
                  (\<lambda>e. tcD\<lparr>module_errors := module_errors tcD @ [e],
                             logged := if hasLogger env then logged tcD @ [e] else logged tcD\<rparr>)
            in case first env (heap tcD) (retTypes ftv) of
                 Some ret \<Rightarrow>
                   if isComparisonOp env (bin_op expr) then
                     returns (Inl (booleanType (builtinTypes env),
                                   if isBoolean env (heap tcD) (follow env (heap tcD) ret) then tcD
                                   else recorded (mustReturn ''boolean'')))
                   else returns (Inl (follow env (heap tcD) ret, tcD))
               | None \<Rightarrow>
                   returns (Inl (errorType (builtinTypes env),
                            recorded (mustReturn
                              (if isComparisonOp env (bin_op expr) then ''boolean'' else ''value'')))))"
    unfolding phase call by (simp add: recordError_def Let_def split: option.splits)
  show ?thesis using shape result by blast
qed


theorem binaryMetamethodPhase_comparison_witness:
  "(case binaryMetamethodPhase (testEnv (\<lambda>i. if i = 3 then 1 else 12) (\<lambda>i. 0)) 0 ltExpr None ''__lt'' 12 12 1
           True False (testTC ltNodes ltPacks (\<lambda>k. if k = 3 then Some 11 else None)) of
      Some (Inr (Inl (resultType, tc'))) \<Rightarrow>
        resultType = 6 \<and>
        module_errors tc' =
          [TypeError (Location (Position 1 0) (Position 1 5)) ''test'' (TypeMismatch 13 11),
           TypeError (Location (Position 1 0) (Position 1 5)) ''test''
             (GenericError (''Metamethod '' @ quoted ''__lt'' @ '' must return a boolean''))]
    | _ \<Rightarrow> False)"
proof -
  let ?E = "testEnv (\<lambda>i. if i = 3 then 1 else 12) (\<lambda>i. 0)"
  let ?T = "testTC ltNodes ltPacks (\<lambda>k. if k = 3 then Some 11 else None)"
  let ?C = "snd (synthesizeExpected ?E 0 CompareLt 12 12 ?T)"
  let ?D = "recordError ?E (TypeMismatch 13 11) (expr_location (bin_self ltExpr)) ?C"
  have syn: "synthesizeExpected ?E 0 (bin_op ltExpr) 12 12 ?T = (13, ?C)"
    by (simp add: synthesizeExpected_def liftHeap_def addType_def addTypePack_def ltExpr_def
        testHeap_defs ltNodes_def ltPacks_def)
  have hC: "getVariant (heap ?C) 13 \<noteq> Some AnyTypeV" "getVariant (heap ?C) 13 \<noteq> Some ErrorTypeV"
      "getVariant (heap ?C) 13 \<noteq> Some UnknownTypeV"
      "getVariant (heap ?C) 11 \<noteq> Some AnyTypeV" "getVariant (heap ?C) 11 \<noteq> Some ErrorTypeV"
      "getVariant (heap ?C) 11 \<noteq> Some NeverTypeV"
    by (simp_all add: synthesizeExpected_def liftHeap_def addType_def addTypePack_def
        testHeap_defs ltNodes_def ltPacks_def)
  have unify: "reportErrors ?E (tryUnify ?E 0 (expr_location (bin_self ltExpr)) (follow ?E (heap ?C) 11) 13 ?C) ?C =
      returns ?D"
    using hC by (simp add: tryUnify_def testEnv_def specUnify_def reportError_plain)
  have first: "first ?E (heap ?D) (retTypes (mkFunctionType 0 1)) = None"
    by (simp add: testEnv_def testFirst_def mkFunctionType_def recordError_def
        synthesizeExpected_def liftHeap_def addType_def addTypePack_def
        testHeap_defs ltNodes_def ltPacks_def)
  have cmp: "isComparisonOp ?E (bin_op ltExpr)"
    by (simp add: isComparisonOp_def testEnv_def testOpNumber_def ltExpr_def)
  have mt: "metatablesMatch ?E (bin_op ltExpr) (heap ?T) 12 12 True"
    by (simp add: metatablesMatch_def)
  have fm: "findMetatableEntry ?E (heap ?T) 12 ''__lt'' loc = (Some 11, [])" for loc
    by (simp add: testEnv_def testMetatableEntry_def testMetatable_def testHeap_defs ltNodes_def
        lookupProp_def plainProperty_def emptyTable_def)
  have fn: "getVariant (heap ?T) (follow ?E (heap ?T) 11) = Some (FunctionTypeV (mkFunctionType 0 1))"
    by (simp add: testEnv_def testHeap_defs ltNodes_def)
  have errsD: "module_errors ?D =
      [TypeError (Location (Position 1 0) (Position 1 5)) ''test'' (TypeMismatch 13 11)]"
    by (simp add: recordError_def synthesizeExpected_def liftHeap_def addType_def addTypePack_def
        testEnv_def ltExpr_def testTC_def split_def Let_def)
  have env: "moduleName ?E = ''test''" "errorType (builtinTypes ?E) = 6"
    by (simp_all add: testEnv_def testBuiltins_def)
  have p1: "metatablesMatch ?E (bin_op ltExpr) (heap ?T) 12 12 True \<or> \<not> isComparisonOp ?E (bin_op ltExpr)"
    using mt by simp
  have p4: "Some 11 = Some (11::nat) \<or> (Some 11 = None \<and> Some 11 = Some (11::nat))" by simp
  have p5: "(12::nat) = (if Some (11::nat) = None then 12 else 12)" by simp
  have p7: "?T = ?T\<lparr>module_errors := module_errors ?T @ [] @ (if Some (11::nat) = None then [] else [])\<rparr>"
    by (simp add: testTC_def)
  have p8: "astOverloadResolvedTypes ?T (case None of Some k \<Rightarrow> k | None \<Rightarrow> expr_id (bin_self ltExpr)) = Some 11"
    by (simp add: testTC_def ltExpr_def)
  have eq: "binaryMetamethodPhase ?E 0 ltExpr None ''__lt'' 12 12 1 True False ?T =
          returns (Inl (6,
            ?D\<lparr>module_errors :=
                   module_errors ?D @
                   [TypeError (expr_location (bin_self ltExpr)) ''test''
                      (GenericError (''Metamethod '' @ quoted ''__lt'' @ '' must return a boolean''))]\<rparr>))"
    using conjunct2 [OF binaryMetamethodPhase_comparison
      [where env="?E" and expr=ltExpr and tc="?T" and leftType=12 and rightType=12
         and typesHaveIntersection=True and mmName="''__lt''" and leftMm="Some 11" and errsL="[]"
         and rightMm="Some 11" and errsR="[]" and mm=11 and a=12 and b=12 and tcA="?T"
         and overrideKey=None and instantiatedMm=11 and ftv="mkFunctionType 0 1" and scope=0
         and expectedTy=13 and tcC="?C" and tcD="?D" and expectedResult=1 and isStringOperation=False,
       OF p1 fm fm p4 p5 p5 p7 p8 fn syn unify]]
    using first cmp env by (simp add: Let_def testEnv_def)
  show ?thesis
    unfolding eq using errsD by (simp add: returns_def ltExpr_def)
qed


lemma andThen_assoc: "andThen (andThen m f) g = andThen m (\<lambda>x. andThen (f x) g)"
  by (simp add: andThen_def split: option.splits sum.splits)

lemma andThen_cong_fun: "(\<And>x. f x = g x) \<Longrightarrow> andThen m f = andThen m g"
  by (simp add: andThen_def split: option.splits sum.splits)

text \<open>The answers for two lists of components, one after the other; then \<open>fetch\<close>, its
  loops and \<open>fetchComponents\<close> in terms of the answers of the components.\<close>

lemma carriers_append:
  "carriers env prop location idx (cs @ ds) tc =
     andThen (carriers env prop location idx cs tc)
       (\<lambda>(xs, tcA). andThen (carriers env prop location idx ds tcA)
                       (\<lambda>(ys, tcB). returns (xs @ ys, tcB)))"
proof (induction cs arbitrary: tc)
  case Nil
  show ?case by (simp add: andThen_def returns_def split: option.splits sum.splits)
next
  case (Cons c cs)
  show ?case
    by (simp add: Cons.IH split_def Let_def andThen_assoc)
qed

lemma fetched_Nil [simp]: "fetched env prop location idx [] st = returns st"
  by (cases st) (simp add: fetched_def)

lemma fetched_append:
  "andThen (fetched env prop location idx cs st) (fetched env prop location idx ds) =
     fetched env prop location idx (cs @ ds) st"
proof -
  obtain f m tc where st: "st = (f, m, tc)" by (cases st) auto
  show ?thesis
    unfolding st
    by (simp add: fetched_def carriers_append andThen_assoc split_def disj_assoc)
qed

lemma fetched_one:
  "fetched env prop location idx [c] (f, m, tc) =
     (let (ty, tcA) = componentType env c tc in fetch env prop location idx ty (f, m, tcA))"
proof -
  obtain ty tcA where c: "componentType env c tc = (ty, tcA)" by fastforce
  obtain inh tcB where i: "isInhabited env ty tcA = (inh, tcB)" by fastforce
  show ?thesis
  proof (cases inh)
    case False
    then show ?thesis by (simp add: fetched_def fetch_def c i)
  next
    case True
    then show ?thesis
      by (auto simp: fetched_def fetch_def c i andThen_assoc intro!: andThen_cong_fun)
  qed
qed

lemma fetch_fetched:
  "fetch env prop location idx ty st = fetched env prop location idx [Plain ty] st"
  by (cases st) (simp add: fetched_one componentType_def)

lemma fetchEach_fetched:
  "fetchEach env prop location idx tys st = fetched env prop location idx (map Plain tys) st"
proof (induction tys arbitrary: st)
  case Nil
  show ?case by simp
next
  case (Cons ty tys)
  have "fetchEach env prop location idx (ty # tys) st =
          andThen (fetched env prop location idx [Plain ty] st)
            (fetched env prop location idx (map Plain tys))"
    using Cons.IH by (auto simp: fetch_fetched intro!: andThen_cong_fun)
  then show ?case by (simp add: fetched_append)
qed

lemma fetchTyvars_fetched:
  "fetchTyvars env prop location idx tvs st =
     fetched env prop location idx (map (\<lambda>(tyvar, intersect). Tyvar tyvar intersect) tvs) st"
proof (induction tvs arbitrary: st)
  case Nil
  show ?case by simp
next
  case (Cons tv tvs)
  obtain tyvar intersect where tv: "tv = (tyvar, intersect)" by (cases tv) auto
  obtain f m tc where st: "st = (f, m, tc)" by (cases st) auto
  have "fetchTyvars env prop location idx (tv # tvs) st =
          andThen (fetched env prop location idx [Tyvar tyvar intersect] st)
            (fetched env prop location idx (map (\<lambda>(tyvar, intersect). Tyvar tyvar intersect) tvs))"
    unfolding tv st
    by (simp add: fetched_one componentType_def Cons.IH [abs_def] split_def Let_def)
  then show ?case by (simp add: fetched_append tv)
qed

lemma fetched_parts:
  "(case st of (foundOneProp, typesMissingTheProp, tc') \<Rightarrow>
      (let (it, tc'') = liftHeap (addType (IntersectionTypeV parts)) tc'
       in fetch env prop location idx it (foundOneProp, typesMissingTheProp, tc''))) =
   fetched env prop location idx [Parts parts] st"
  by (cases st) (simp add: fetched_one componentType_def)

lemma fetched_functions:
  "(if functions_isTop norm then fetch env prop location idx (functionType (builtinTypes env)) st
    else if \<not> functions_isNever norm then
      (case functions_parts norm of
         [part] \<Rightarrow> fetch env prop location idx part st
       | parts \<Rightarrow>
           (case st of (foundOneProp, typesMissingTheProp, tc') \<Rightarrow>
              (let (it, tc'') = liftHeap (addType (IntersectionTypeV parts)) tc'
               in fetch env prop location idx it (foundOneProp, typesMissingTheProp, tc''))))
    else returns st) =
   fetched env prop location idx
     (if functions_isTop norm then [Plain (functionType (builtinTypes env))]
      else if \<not> functions_isNever norm then
        (case functions_parts norm of [part] \<Rightarrow> [Plain part] | parts \<Rightarrow> [Parts parts])
      else []) st"
  by (simp add: fetched_parts [symmetric] fetch_fetched [symmetric] split: list.splits)

lemma fetched_strings:
  "(if \<not> strings_isNever norm then fetch env prop location idx (stringType (builtinTypes env)) st
    else returns st) =
   fetched env prop location idx
     (if \<not> strings_isNever norm then [Plain (stringType (builtinTypes env))] else []) st"
  by (simp add: fetch_fetched)

lemma fetched_then:
  "andThen (fetched env prop location idx cs st) (\<lambda>st'. fetched env prop location idx ds st') =
     fetched env prop location idx (cs @ ds) st"
  using fetched_append [where cs=cs and ds=ds and st=st] by simp

lemma fetchComponents_fetched:
  "fetchComponents env prop location idx norm tc =
     fetched env prop location idx (components env norm) (False, [], tc)"
  unfolding fetchComponents_def Let_def
  unfolding fetched_functions [unfolded Let_def] fetched_strings
  unfolding fetchEach_fetched fetchTyvars_fetched fetch_fetched
  by (simp add: fetched_append fetched_then components_def)

lemma checkIndexTypeFromType_carriers:
  "checkIndexTypeFromType env tableTy prop location ctx astIndexExprType tc =
     (case normalize env tableTy tc of
        (None, tcA) \<Rightarrow>
          returns (tcA\<lparr>module_errors :=
                          module_errors tcA @ [TypeError location (moduleName env) NormalizationTooComplex],
                        logged :=
                          if hasLogger env
                          then logged tcA @ [TypeError location (moduleName env) NormalizationTooComplex]
                          else logged tcA\<rparr>)
      | (Some n, tcA) \<Rightarrow>
          andThen (carriers env prop location astIndexExprType (components env n) tcA)
            (\<lambda>(answers, tcB).
               let missing = map fst (filter (\<lambda>a. \<not> snd a) answers);
                   report = (\<lambda>d. tcB\<lparr>module_errors :=
                                          module_errors tcB @ [TypeError location (moduleName env) d],
                                        logged :=
                                          if hasLogger env
                                          then logged tcB @ [TypeError location (moduleName env) d]
                                          else logged tcB\<rparr>)
               in if missing = [] then returns tcB
                  else if list_ex snd answers then
                    returns (report (MissingUnionProperty tableTy missing prop))
                  else if ctx = LValue \<and> \<not> isClassType (heap tcB) tableTy then
                    returns (report (CannotExtendTable tableTy CET_Property prop))
                  else
                    andThen (diagnoseMissingTableKey env (heap tcB) tableTy prop)
                      (\<lambda>d. returns (report d))))"
proof -
  obtain norm tcA where n: "normalize env tableTy tc = (norm, tcA)" by fastforce
  show ?thesis
  proof (cases norm)
    case None
    then show ?thesis
      using n by (simp add: checkIndexTypeFromType_def reportError_plain recordError_def Let_def)
  next
    case (Some nf)
    show ?thesis
      using n Some
      by (auto simp: checkIndexTypeFromType_def fetchComponents_fetched fetched_def andThen_assoc
            reportError_plain reportError_def recordError_def Let_def
            intro!: andThen_cong_fun)
  qed
qed

lemma hasIndex_table:
  "getVariant (heap tc) t = Some (TableTypeV tt) \<Longrightarrow> indexer tt = None \<Longrightarrow>
   hasIndexTypeFromType (testEnv astTypes astResolvedTypes) t p location {} idx tc =
     returns (lookupProp (props tt) p \<noteq> None, {t}, tc)"
  unfolding hasIndexTypeFromType_def
  by (subst hasIndexTypeFromTypeWalk.simps)
     (auto simp: testEnv_def isAnyErrorNever_def testTableType_def returns_def Let_def)

lemma equalsLower_foo: "equalsLower ''foo'' ''Foo''"
  by code_simp

lemma accumulate_foo: "accumulate ''foo'' [(''Foo'', p)] = {''Foo''}"
  using equalsLower_foo by (simp add: accumulate_def)

lemma carriers_foo:
  "carriers (testEnv (\<lambda>i. 9) (\<lambda>i. 0)) ''foo'' loc0 2
     (components (testEnv (\<lambda>i. 9) (\<lambda>i. 0))
        (NormalizedType 7 7 [] 7 7 7 True 7 [9] False True [] [] False False))
     (testTC fooNodes [] (\<lambda>k. None)) =
   returns ([(9, False)], testTC fooNodes [] (\<lambda>k. None))"
proof -
  let ?E = "testEnv (\<lambda>i. 9) (\<lambda>i. 0)"
  let ?T = "testTC fooNodes [] (\<lambda>k. None)"
  have never: "isInhabited ?E 7 ?T = (False, ?T)"
    by (simp add: testEnv_def testHeap_defs)
  have table: "isInhabited ?E 9 ?T = (True, ?T)"
    by (simp add: testEnv_def testHeap_defs fooNodes_def)
  have has: "hasIndexTypeFromType ?E 9 ''foo'' loc0 {} 2 ?T = returns (False, {9}, ?T)"
    using hasIndex_table [of ?T 9 "emptyTable\<lparr>props := [(''Foo'', plainProperty 2)]\<rparr>" "\<lambda>i. 9" "\<lambda>i. 0" "''foo''" loc0 2]
    by (simp add: testHeap_defs fooNodes_def emptyTable_def lookupProp_def)
  show ?thesis
    by (simp add: components_def componentType_def never table has)
qed

lemma carriers_union:
  "carriers (testEnv (\<lambda>i. 9) (\<lambda>i. 0)) ''Foo'' loc0 2
     (components (testEnv (\<lambda>i. 9) (\<lambda>i. 0))
        (NormalizedType 7 7 [] 7 7 7 True 7 [9, 10] False True [] [] False False))
     (testTC unionNodes [] (\<lambda>k. None)) =
   returns ([(9, True), (10, False)], testTC unionNodes [] (\<lambda>k. None))"
proof -
  let ?E = "testEnv (\<lambda>i. 9) (\<lambda>i. 0)"
  let ?T = "testTC unionNodes [] (\<lambda>k. None)"
  have never: "isInhabited ?E 7 ?T = (False, ?T)"
    by (simp add: testEnv_def testHeap_defs)
  have table: "isInhabited ?E 9 ?T = (True, ?T)" "isInhabited ?E 10 ?T = (True, ?T)"
    by (simp_all add: testEnv_def testHeap_defs unionNodes_def)
  have has: "hasIndexTypeFromType ?E 9 ''Foo'' loc0 {} 2 ?T = returns (True, {9}, ?T)"
    using hasIndex_table [of ?T 9 "emptyTable\<lparr>props := [(''Foo'', plainProperty 2)]\<rparr>" "\<lambda>i. 9" "\<lambda>i. 0" "''Foo''" loc0 2]
    by (simp add: testHeap_defs unionNodes_def emptyTable_def lookupProp_def plainProperty_def)
  have hasnot: "hasIndexTypeFromType ?E 10 ''Foo'' loc0 {} 2 ?T = returns (False, {10}, ?T)"
    using hasIndex_table [of ?T 10 emptyTable "\<lambda>i. 9" "\<lambda>i. 0" "''Foo''" loc0 2]
    by (simp add: testHeap_defs unionNodes_def emptyTable_def lookupProp_def)
  show ?thesis
    by (simp add: components_def componentType_def never table has hasnot)
qed

lemma accumulate_eq:
  "accumulate sv ps = {name \<in> fst ` set ps. name \<noteq> sv \<and> equalsLower sv name}"
  by (auto simp: accumulate_def)

lemma accumulateClasses_chain:
  "classChain h ctv cs \<Longrightarrow>
   accumulateClasses h sv ctv candidates =
     Some (Inr (candidates \<union> accumulate sv (cls_props ctv) \<union>
                (\<Union>c \<in> set cs. accumulate sv (cls_props c))))"
proof (induction cs arbitrary: ctv candidates)
  case Nil
  then show ?case by (subst accumulateClasses.simps) simp
next
  case (Cons c cs)
  from Cons.prems obtain p where p: "parent ctv = Some p" "getVariant h p = Some (ClassTypeV c)"
    "classChain h c cs"
    by (auto split: option.splits)
  show ?case
    by (subst accumulateClasses.simps) (simp add: p Cons.IH [OF p(3)] Let_def Un_assoc)
qed

lemma diagnoseMissingTableKey_table:
  "getTableType env h table = Some ttv \<Longrightarrow>
   diagnoseMissingTableKey env h table key =
     returns (if accumulate key (props ttv) = {} then UnknownProperty table key
              else UnknownPropButFoundLikeProp table key (accumulate key (props ttv)))"
  by (simp add: diagnoseMissingTableKey_def)

lemma diagnoseMissingTableKey_class:
  assumes "getTableType env h table = None"
      and "getVariant h (follow env h table) = Some (ClassTypeV ctv)"
      and "classChain h ctv cs"
  shows "diagnoseMissingTableKey env h table key =
     returns (if (\<Union>c \<in> set (ctv # cs). accumulate key (cls_props c)) = {} then UnknownProperty table key
              else UnknownPropButFoundLikeProp table key (\<Union>c \<in> set (ctv # cs). accumulate key (cls_props c)))"
  using assms accumulateClasses_chain [OF assms(3), of key "{}"]
  by (simp add: diagnoseMissingTableKey_def returns_def andThen_def)

lemma diagnoseMissingTableKey_other:
  "getTableType env h table = None \<Longrightarrow> \<not> isClassType h (follow env h table) \<Longrightarrow>
   diagnoseMissingTableKey env h table key = returns (UnknownProperty table key)"
  by (auto simp: diagnoseMissingTableKey_def isClassType_def split: option.splits TypeVariant.splits)

text \<open>
  C5, as stated, fails: a receiver of type \<open>never\<close> has no inhabited component, so no
  component carries the property, and the lookup reports nothing, neither
  \<open>UnknownProperty\<close> nor, in an \<open>LValue\<close> context, \<open>CannotExtendTable\<close>.
\<close>

theorem checkIndexTypeFromType_never_is_silent:
  "checkIndexTypeFromType (testEnv (\<lambda>i. 7) (\<lambda>i. 0)) 7 ''foo'' loc0 RValue 2 (testTC [] [] (\<lambda>k. None)) =
     returns (testTC [] [] (\<lambda>k. None)) \<and>
   checkIndexTypeFromType (testEnv (\<lambda>i. 7) (\<lambda>i. 0)) 7 ''foo'' loc0 LValue 2 (testTC [] [] (\<lambda>k. None)) =
     returns (testTC [] [] (\<lambda>k. None)) \<and>
   module_errors (testTC [] [] (\<lambda>k. None)) = [] \<and>
   getVariant (heap (testTC [] [] (\<lambda>k. None))) 7 = Some NeverTypeV \<and>
   normalize (testEnv (\<lambda>i. 7) (\<lambda>i. 0)) 7 (testTC [] [] (\<lambda>k. None)) =
     (Some (NormalizedType 7 7 [] 7 7 7 True 7 [] False True [] [] False False), testTC [] [] (\<lambda>k. None)) \<and>
   carriers (testEnv (\<lambda>i. 7) (\<lambda>i. 0)) ''foo'' loc0 2
     (components (testEnv (\<lambda>i. 7) (\<lambda>i. 0))
        (NormalizedType 7 7 [] 7 7 7 True 7 [] False True [] [] False False))
     (testTC [] [] (\<lambda>k. None)) =
     returns ([], testTC [] [] (\<lambda>k. None))"
proof -
  let ?E = "testEnv (\<lambda>i. 7) (\<lambda>i. 0)"
  let ?T = "testTC [] [] (\<lambda>k. None)"
  have never: "isInhabited ?E 7 ?T = (False, ?T)"
    by (simp add: testEnv_def testHeap_defs)
  have norm: "normalize ?E 7 ?T =
     (Some (NormalizedType 7 7 [] 7 7 7 True 7 [] False True [] [] False False), ?T)"
    by (simp add: testEnv_def testNormalize_def testHeap_defs)
  have f: "fetch ?E ''foo'' loc0 2 7 (False, [], ?T) = returns (False, [], ?T)"
    by (simp add: fetch_def never)
  have fc: "fetchComponents ?E ''foo'' loc0 2
              (NormalizedType 7 7 [] 7 7 7 True 7 [] False True [] [] False False) ?T =
            returns (False, [], ?T)"
    by (simp add: fetchComponents_def f)
  have a: "checkIndexTypeFromType ?E 7 ''foo'' loc0 ctx 2 ?T = returns ?T" for ctx
    by (simp add: checkIndexTypeFromType_def norm fc)
  have c: "carriers ?E ''foo'' loc0 2
     (components ?E (NormalizedType 7 7 [] 7 7 7 True 7 [] False True [] [] False False)) ?T =
     returns ([], ?T)"
    by (simp add: components_def componentType_def never)
  have e: "module_errors ?T = []" "getVariant (heap ?T) 7 = Some NeverTypeV"
    by (simp_all add: testHeap_defs)
  show ?thesis using a norm c e by simp
qed

text \<open>
  C5, amended.  When the receiver cannot be normalized, \<open>NormalizationTooComplex\<close> is
  recorded.  Otherwise the components of the normal form are taken in turn, and the
  inhabited ones are asked whether they carry the property.  If every inhabited component
  carries it (in particular if none is inhabited), nothing is recorded.  If some inhabited
  component does not carry it, exactly one error is appended to the module's errors, at
  the location of the lookup: \<open>MissingUnionProperty\<close>, with the components that do not
  carry it, if another inhabited component does; \<open>CannotExtendTable\<close> of kind \<open>Property\<close>
  if none does and the context is \<open>LValue\<close> on a receiver that is not a class; and
  otherwise \<open>UnknownProperty\<close>, replaced by the suggestion \<open>UnknownPropButFoundLikeProp\<close>
  exactly when some property name of the table (or of the class and its ancestors)
  differs from the requested name and equals it up to case.
\<close>

theorem checkIndexTypeFromType_diagnostic:
  "checkIndexTypeFromType env tableTy key location ctx astIndexExprType tc =
     (case normalize env tableTy tc of
        (None, tcA) \<Rightarrow>
          returns (tcA\<lparr>module_errors :=
                          module_errors tcA @ [TypeError location (moduleName env) NormalizationTooComplex],
                        logged :=
                          if hasLogger env
                          then logged tcA @ [TypeError location (moduleName env) NormalizationTooComplex]
                          else logged tcA\<rparr>)
      | (Some n, tcA) \<Rightarrow>
          andThen (carriers env key location astIndexExprType (components env n) tcA)
            (\<lambda>(answers, tcB).
               let missing = map fst (filter (\<lambda>a. \<not> snd a) answers);
                   report = (\<lambda>d. tcB\<lparr>module_errors :=
                                          module_errors tcB @ [TypeError location (moduleName env) d],
                                        logged :=
                                          if hasLogger env
                                          then logged tcB @ [TypeError location (moduleName env) d]
                                          else logged tcB\<rparr>)
               in if missing = [] then returns tcB
                  else if list_ex snd answers then
                    returns (report (MissingUnionProperty tableTy missing key))
                  else if ctx = LValue \<and> \<not> isClassType (heap tcB) tableTy then
                    returns (report (CannotExtendTable tableTy CET_Property key))
                  else
                    andThen (diagnoseMissingTableKey env (heap tcB) tableTy key)
                      (\<lambda>d. returns (report d)))) \<and>
   (getTableType env h tableTy = Some ttv \<longrightarrow>
    diagnoseMissingTableKey env h tableTy key =
      returns (if accumulate key (props ttv) = {} then UnknownProperty tableTy key
               else UnknownPropButFoundLikeProp tableTy key (accumulate key (props ttv)))) \<and>
   (getTableType env h tableTy = None \<and>
    getVariant h (follow env h tableTy) = Some (ClassTypeV ctv) \<and>
    classChain h ctv cs \<longrightarrow>
    diagnoseMissingTableKey env h tableTy key =
      returns (if (\<Union>c \<in> set (ctv # cs). accumulate key (cls_props c)) = {}
               then UnknownProperty tableTy key
               else UnknownPropButFoundLikeProp tableTy key
                      (\<Union>c \<in> set (ctv # cs). accumulate key (cls_props c)))) \<and>
   (getTableType env h tableTy = None \<and> \<not> isClassType h (follow env h tableTy) \<longrightarrow>
    diagnoseMissingTableKey env h tableTy key = returns (UnknownProperty tableTy key)) \<and>
   accumulate key ps = {name \<in> fst ` set ps. name \<noteq> key \<and> equalsLower key name}"
  using checkIndexTypeFromType_carriers [of env tableTy key location ctx astIndexExprType tc]
    diagnoseMissingTableKey_table [of env h tableTy ttv key]
    diagnoseMissingTableKey_class [of env h tableTy ctv cs key]
    diagnoseMissingTableKey_other [of env h tableTy key]
    accumulate_eq [of key ps]
  by blast

theorem checkIndexTypeFromType_diagnostic_witness:
  "checkIndexTypeFromType (testEnv (\<lambda>i. 9) (\<lambda>i. 0)) 11 ''Foo'' loc0 RValue 2 (testTC unionNodes [] (\<lambda>k. None)) =
     returns ((testTC unionNodes [] (\<lambda>k. None))
       \<lparr>module_errors := [TypeError loc0 ''test'' (MissingUnionProperty 11 [10] ''Foo'')]\<rparr>) \<and>
   checkIndexTypeFromType (testEnv (\<lambda>i. 9) (\<lambda>i. 0)) 9 ''foo'' loc0 RValue 2 (testTC fooNodes [] (\<lambda>k. None)) =
     returns ((testTC fooNodes [] (\<lambda>k. None))
       \<lparr>module_errors := [TypeError loc0 ''test'' (UnknownPropButFoundLikeProp 9 ''foo'' {''Foo''})]\<rparr>) \<and>
   checkIndexTypeFromType (testEnv (\<lambda>i. 9) (\<lambda>i. 0)) 9 ''foo'' loc0 LValue 2 (testTC fooNodes [] (\<lambda>k. None)) =
     returns ((testTC fooNodes [] (\<lambda>k. None))
       \<lparr>module_errors := [TypeError loc0 ''test'' (CannotExtendTable 9 CET_Property ''foo'')]\<rparr>)"
proof -
  let ?E = "testEnv (\<lambda>i. 9) (\<lambda>i. 0)"
  let ?T = "testTC fooNodes [] (\<lambda>k. None)"
  let ?U = "testTC unionNodes [] (\<lambda>k. None)"
  let ?tt = "emptyTable\<lparr>props := [(''Foo'', plainProperty 2)]\<rparr>"
  have nT: "normalize ?E 9 ?T =
     (Some (NormalizedType 7 7 [] 7 7 7 True 7 [9] False True [] [] False False), ?T)"
    by (simp add: testEnv_def testNormalize_def testHeap_defs fooNodes_def)
  have nU: "normalize ?E 11 ?U =
     (Some (NormalizedType 7 7 [] 7 7 7 True 7 [9, 10] False True [] [] False False), ?U)"
    by (simp add: testEnv_def testNormalize_def testHeap_defs unionNodes_def)
  have tt: "getTableType ?E (heap ?T) 9 = Some ?tt"
    by (simp add: testEnv_def testTableType_def testHeap_defs fooNodes_def)
  have cls: "\<not> isClassType (heap ?T) 9"
    by (simp add: isClassType_def testHeap_defs fooNodes_def)
  have acc: "accumulate ''foo'' (props ?tt) = {''Foo''}"
    by (simp add: accumulate_foo)
  have env: "moduleName ?E = ''test''" "\<not> hasLogger ?E"
    by (simp_all add: testEnv_def)
  have errs: "module_errors ?T = []" "module_errors ?U = []"
    by (simp_all add: testTC_def)
  note w = checkIndexTypeFromType_diagnostic
             [where env="?E" and astIndexExprType=2 and location=loc0 and h="heap ?T" and ttv="?tt"]
  have u: "checkIndexTypeFromType ?E 11 ''Foo'' loc0 RValue 2 ?U =
     returns (?U\<lparr>module_errors := [TypeError loc0 ''test'' (MissingUnionProperty 11 [10] ''Foo'')]\<rparr>)"
    using w [where tableTy=11 and key="''Foo''" and ctx=RValue and tc="?U"]
    by (simp add: nU carriers_union env errs)
  have d: "diagnoseMissingTableKey ?E (heap ?T) 9 ''foo'' =
             returns (UnknownPropButFoundLikeProp 9 ''foo'' {''Foo''})"
    using w [where tableTy=9 and key="''foo''"] tt acc by simp
  have r: "checkIndexTypeFromType ?E 9 ''foo'' loc0 RValue 2 ?T =
     returns (?T\<lparr>module_errors := [TypeError loc0 ''test'' (UnknownPropButFoundLikeProp 9 ''foo'' {''Foo''})]\<rparr>)"
    using w [where tableTy=9 and key="''foo''" and ctx=RValue and tc="?T"]
    by (simp add: nT carriers_foo env errs d)
  have l: "checkIndexTypeFromType ?E 9 ''foo'' loc0 LValue 2 ?T =
     returns (?T\<lparr>module_errors := [TypeError loc0 ''test'' (CannotExtendTable 9 CET_Property ''foo'')]\<rparr>)"
    using w [where tableTy=9 and key="''foo''" and ctx=LValue and tc="?T"]
    by (simp add: nT carriers_foo env errs cls)
  show ?thesis using u r l by simp
qed

section \<open>Properties of the cloner\<close>

lemma clone_fns:
  "clone_TypeId lim ff n = (\<lambda>t. cloneFuel lim ff n (Inl t))"
  "clone_TypePackId lim ff n = (\<lambda>p. cloneFuel lim ff n (Inr p))"
  by (intro ext, simp add: clone_TypeId_def clone_TypePackId_def)+

lemma clone_TypeId_Suc:
  "clone_TypeId lim ff (Suc n) typeId w =
     clone_TypeId_body lim ff (clone_TypeId lim ff n) (clone_TypePackId lim ff n) typeId w"
  by (simp add: clone_fns)

lemma clone_TypePackId_Suc:
  "clone_TypePackId lim ff (Suc n) tp w =
     clone_TypePackId_body lim ff (clone_TypeId lim ff n) (clone_TypePackId lim ff n) tp w"
  by (simp add: clone_fns)

lemma clone_TypeId_0:
  "clone_TypeId lim ff 0 typeId w =
     clone_TypeId_body lim ff (\<lambda>t w'. OutOfFuel) (\<lambda>p w'. OutOfFuel) typeId w"
  by (simp add: clone_TypeId_def)

lemma clone_TypePackId_0:
  "clone_TypePackId lim ff 0 tp w =
     clone_TypePackId_body lim ff (\<lambda>t w'. OutOfFuel) (\<lambda>p w'. OutOfFuel) tp w"
  by (simp add: clone_TypePackId_def)

text \<open>
  C1.  For a type node (and for a type pack) marked persistent, \<open>clone\<close> returns the very
  address it was given and leaves everything as it was: no node is allocated or changed,
  the destination arena owns nothing new, and the clone state is untouched.  This holds
  for every destination arena, clone state, flag setting, recursion limiter and depth.
\<close>

theorem clone_persistent_is_identity:
  "(lookupTypeNode (cw_heap w) typeId = Some node \<and> persistent node \<longrightarrow>
      clone_TypeId lim ff n typeId w = Ok typeId w) \<and>
   (lookupPackNode (cw_heap w) tp = Some packNode \<and> tp_persistent packNode \<longrightarrow>
      clone_TypePackId lim ff n tp w = Ok tp w)"
  by (cases n)
     (simp_all add: clone_TypeId_0 clone_TypePackId_0 clone_TypeId_Suc clone_TypePackId_Suc
        clone_TypeId_body_def clone_TypePackId_body_def)

theorem clone_persistent_is_identity_witness:
  "clone_TypeId countingLimiter defaultFlags 0 2 builtinWorld = Ok 2 builtinWorld \<and>
   clone_TypePackId countingLimiter defaultFlags 0 0 builtinWorld = Ok 0 builtinWorld"
  using clone_persistent_is_identity
    [where w=builtinWorld and typeId=2 and node="persistentNode (PrimitiveTypeV PrimNumber)"
       and ff=defaultFlags and n=0 and tp=0 and lim=countingLimiter
       and packNode="\<lparr>TypePackVar_ty = TypePackV [2] None, tp_persistent = True\<rparr>"]
  by (simp add: builtinWorld_def freshWorld_def builtinNodes_def lookupTypeNode_def lookupPackNode_def
      persistentNode_def)

lemma afterwards_simps [simp]:
  "afterwards P (Ok x w) = P w"
  "afterwards P (Throw e w) = P w"
  "afterwards P OutOfFuel = True"
  by (simp_all add: afterwards_def)


lemma noError_update:
  assumes "ErrorTypeV \<notin> set (map Type_ty xs)"
      and "\<And>v. v \<noteq> ErrorTypeV \<Longrightarrow> f v \<noteq> ErrorTypeV"
  shows "ErrorTypeV \<notin> set (map Type_ty (xs[a := (xs ! a)\<lparr>Type_ty := f (Type_ty (xs ! a))\<rparr>]))"
proof (cases "a < length xs")
  case True
  then have "Type_ty (xs ! a) \<noteq> ErrorTypeV" using assms(1) by (metis nth_map nth_mem length_map)
  then have "f (Type_ty (xs ! a)) \<noteq> ErrorTypeV" by (rule assms(2))
  moreover have "set (xs[a := (xs ! a)\<lparr>Type_ty := f (Type_ty (xs ! a))\<rparr>]) \<subseteq>
                 insert ((xs ! a)\<lparr>Type_ty := f (Type_ty (xs ! a))\<rparr>) (set xs)"
    by (rule set_update_subset_insert)
  ultimately show ?thesis using assms(1) by auto
next
  case False
  then have "xs[a := y] = xs" for y by (simp add: list_update_beyond)
  then show ?thesis using assms(1) by simp
qed

lemma noErrorPack_update:
  assumes "ErrorTypePackV \<notin> set (map TypePackVar_ty xs)"
      and "\<And>v. v \<noteq> ErrorTypePackV \<Longrightarrow> f v \<noteq> ErrorTypePackV"
  shows "ErrorTypePackV \<notin>
           set (map TypePackVar_ty (xs[a := (xs ! a)\<lparr>TypePackVar_ty := f (TypePackVar_ty (xs ! a))\<rparr>]))"
proof (cases "a < length xs")
  case True
  then have "TypePackVar_ty (xs ! a) \<noteq> ErrorTypePackV"
    using assms(1) by (metis nth_map nth_mem length_map)
  then have "f (TypePackVar_ty (xs ! a)) \<noteq> ErrorTypePackV" by (rule assms(2))
  moreover have "set (xs[a := (xs ! a)\<lparr>TypePackVar_ty := f (TypePackVar_ty (xs ! a))\<rparr>]) \<subseteq>
                 insert ((xs ! a)\<lparr>TypePackVar_ty := f (TypePackVar_ty (xs ! a))\<rparr>) (set xs)"
    by (rule set_update_subset_insert)
  ultimately show ?thesis using assms(1) by auto
next
  case False
  then have "xs[a := y] = xs" for y by (simp add: list_update_beyond)
  then show ?thesis using assms(1) by simp
qed

lemma noErrorNode_updType:
  "noErrorNode w \<Longrightarrow> (\<And>v. v \<noteq> ErrorTypeV \<Longrightarrow> f v \<noteq> ErrorTypeV) \<Longrightarrow> noErrorNode (updType a f w)"
  using noError_update [of "types (cw_heap w)" f a] by (simp add: noErrorNode_def updType_def)

lemma noErrorNode_updTypePack:
  "noErrorNode w \<Longrightarrow> (\<And>v. v \<noteq> ErrorTypePackV \<Longrightarrow> f v \<noteq> ErrorTypePackV) \<Longrightarrow>
   noErrorNode (updTypePack a f w)"
  using noErrorPack_update [of "typePacks (cw_heap w)" f a] by (simp add: noErrorNode_def updTypePack_def)

lemma noErrorNode_updFunction [simp]: "noErrorNode w \<Longrightarrow> noErrorNode (updFunction a g w)"
  unfolding updFunction_def by (rule noErrorNode_updType) (auto split: TypeVariant.splits)

lemma noErrorNode_updTable [simp]: "noErrorNode w \<Longrightarrow> noErrorNode (updTable a g w)"
  unfolding updTable_def by (rule noErrorNode_updType) (auto split: TypeVariant.splits)

lemma noErrorNode_updClass [simp]: "noErrorNode w \<Longrightarrow> noErrorNode (updClass a g w)"
  unfolding updClass_def by (rule noErrorNode_updType) (auto split: TypeVariant.splits)

lemma noErrorNode_pushType [simp]: "noErrorNode w \<Longrightarrow> noErrorNode (pushType vec a x w)"
  unfolding pushType_def
  by (cases vec)
     (auto intro!: noErrorNode_updType noErrorNode_updTypePack
           split: TypeVariant.splits TypePackVariant.splits)

lemma noErrorNode_pushPack [simp]: "noErrorNode w \<Longrightarrow> noErrorNode (pushPack vec a x w)"
  unfolding pushPack_def
  by (cases vec)
     (auto intro!: noErrorNode_updType noErrorNode_updTypePack
           split: TypeVariant.splits TypePackVariant.splits)

lemma noErrorNode_assignPropOf [simp]: "noErrorNode w \<Longrightarrow> noErrorNode (assignPropOf owner a name p w)"
  unfolding assignPropOf_def by (cases owner) auto

lemma noErrorNode_setSeen [simp]:
  "noErrorNode (setSeenType t c w) = noErrorNode w"
  "noErrorNode (setSeenTypePack p d w) = noErrorNode w"
  by (simp_all add: noErrorNode_def setSeenType_def setSeenTypePack_def)

lemma noErrorNode_destAdd [simp]:
  "noErrorNode (snd (destAddType v w)) = (v \<noteq> ErrorTypeV \<and> noErrorNode w)"
  "noErrorNode (snd (destAddTypePack pv w)) = (pv \<noteq> ErrorTypePackV \<and> noErrorNode w)"
  by (auto simp: noErrorNode_def destAddType_def destAddTypePack_def addType_def addTypePack_def)

lemma noErrorNode_recursionCount [simp]:
  "noErrorNode (w\<lparr>recursionCount := c\<rparr>) = noErrorNode w"
  by (simp add: noErrorNode_def)

lemma afterwards_leave [simp]:
  "afterwards noErrorNode (RecursionLimiter_leave lim ff entered r) = afterwards noErrorNode r"
  by (cases r) (simp_all add: RecursionLimiter_leave_def)



















lemmas clone_eval =
  clone_TypeId_0 clone_TypePackId_0 clone_TypeId_Suc clone_TypePackId_Suc
  clone_TypeId_body_def clone_TypePackId_body_def
  RecursionLimiter_enter_def RecursionLimiter_leave_def cbind_def countingLimiter_def
  TypeCloner_defaultClone_def TypePackCloner_defaultClone_def
  destAddType_def destAddTypePack_def addType_def addTypePack_def
  setSeenType_def setSeenTypePack_def updType_def updTypePack_def updTable_def updFunction_def
  updClass_def pushType_def pushPack_def assignPropOf_def clone_Property_def clone_TableIndexer_def
  lookupTypeNode_def lookupPackNode_def freshWorld_def localNode_def persistentNode_def
  defaultFlags_def emptyTable_def plainProperty_def Let_def

lemma self_union_never_returns:
  assumes "types (cw_heap w) = selfUnionNodes" and "seenTypes w 0 = None"
  shows "case clone_TypeId lim defaultFlags n 0 w of
           Ok r w' \<Rightarrow> False
         | Throw e w' \<Rightarrow> e = LimiterExit \<and> cw_heap w' = cw_heap w \<and> seenTypes w' = seenTypes w
         | OutOfFuel \<Rightarrow> True"
  using assms
proof (induction n arbitrary: w)
  case 0
  then show ?case
    by (simp add: clone_TypeId_0 clone_TypeId_body_def lookupTypeNode_def selfUnionNodes_def localNode_def
          RecursionLimiter_enter_def RecursionLimiter_leave_def cbind_def defaultFlags_def
          split: sum.splits)
next
  case (Suc n)
  have lk: "lookupTypeNode (cw_heap w) 0 = Some (localNode (UnionTypeV [0]))"
    using Suc.prems by (simp add: lookupTypeNode_def selfUnionNodes_def)
  have flag: "\<not> LuauCloneCyclicUnions defaultFlags" by (simp add: defaultFlags_def)
  show ?case
  proof (cases "construct lim (LuauTypeCloneRecursionLimit defaultFlags) (recursionCount w)")
    case (Inl c)
    then show ?thesis
      by (simp add: clone_TypeId_Suc clone_TypeId_body_def lk localNode_def RecursionLimiter_enter_def)
  next
    case (Inr c)
    let ?w1 = "w\<lparr>recursionCount := c\<rparr>"
    have ih: "case clone_TypeId lim defaultFlags n 0 ?w1 of
           Ok r w' \<Rightarrow> False
         | Throw e w' \<Rightarrow> e = LimiterExit \<and> cw_heap w' = cw_heap ?w1 \<and> seenTypes w' = seenTypes ?w1
         | OutOfFuel \<Rightarrow> True"
      by (rule Suc.IH) (use Suc.prems in simp_all)
    show ?thesis
      using ih Inr Suc.prems(2)
      by (cases "clone_TypeId lim defaultFlags n 0 ?w1")
         (simp_all add: clone_TypeId_Suc clone_TypeId_body_def lk localNode_def RecursionLimiter_enter_def
            RecursionLimiter_leave_def cbind_def flag)
  qed
qed

lemma listNodes_default_clone:
  "resultOf (clone_TypeId countingLimiter defaultFlags 4 0 (freshWorld listNodes [])) =
     Some (6, [UnionTypeV [1, 2],
               TableTypeV (emptyTable\<lparr>props := [(''next'', plainProperty 0)]\<rparr>),
               PrimitiveTypeV PrimNil,
               TableTypeV (emptyTable\<lparr>props := [(''next'', plainProperty 5)]\<rparr>),
               PrimitiveTypeV PrimNil,
               UnionTypeV [3, 4],
               UnionTypeV [3, 4]])"
proof -
  have four: "(4::nat) = Suc (Suc (Suc (Suc 0)))" by simp
  show ?thesis unfolding four by (simp add: clone_eval listNodes_def resultOf_def)
qed

text \<open>
  C2 on a cyclic union.  With the default flags the clone of the recursive type
  \<^verbatim>\<open>{ next: T? }\<close>, entered at its union (node 0), has two copies of the union: the root
  is node 6, but the \<open>next\<close> property of the cloned table (node 3) is node 5, so the two
  edges that reach the source union lead to different clones, and the cycle of length two
  has become a path into a cycle.  A union that is its own option is never cloned: whatever
  the recursion limiter does and however deep the calls may nest, the call does not return;
  it ends only when the limiter ends it, with the nodes as they were.  With
  \<open>LuauCloneCyclicUnions\<close> on, the clone of the first graph is isomorphic to it: the union
  is node 3, the table node 4 with \<open>next\<close> leading back to node 3, and \<open>nil\<close> node 5.
\<close>

theorem clone_cyclic_union:
  "resultOf (clone_TypeId countingLimiter defaultFlags 4 0 (freshWorld listNodes [])) =
     Some (6, [UnionTypeV [1, 2],
               TableTypeV (emptyTable\<lparr>props := [(''next'', plainProperty 0)]\<rparr>),
               PrimitiveTypeV PrimNil,
               TableTypeV (emptyTable\<lparr>props := [(''next'', plainProperty 5)]\<rparr>),
               PrimitiveTypeV PrimNil,
               UnionTypeV [3, 4],
               UnionTypeV [3, 4]]) \<and>
   (case clone_TypeId lim defaultFlags n 0 (freshWorld selfUnionNodes []) of
      Ok r w' \<Rightarrow> False
    | Throw e w' \<Rightarrow> e = LimiterExit \<and> cw_heap w' = cw_heap (freshWorld selfUnionNodes [])
    | OutOfFuel \<Rightarrow> True) \<and>
   resultOf (clone_TypeId countingLimiter (defaultFlags\<lparr>LuauCloneCyclicUnions := True\<rparr>) 4 0
               (freshWorld listNodes [])) =
     Some (3, [UnionTypeV [1, 2],
               TableTypeV (emptyTable\<lparr>props := [(''next'', plainProperty 0)]\<rparr>),
               PrimitiveTypeV PrimNil,
               UnionTypeV [4, 5],
               TableTypeV (emptyTable\<lparr>props := [(''next'', plainProperty 3)]\<rparr>),
               PrimitiveTypeV PrimNil])"
proof -
  have four: "(4::nat) = Suc (Suc (Suc (Suc 0)))" by simp
  note a = listNodes_default_clone
  have b: "case clone_TypeId lim defaultFlags n 0 (freshWorld selfUnionNodes []) of
      Ok r w' \<Rightarrow> False
    | Throw e w' \<Rightarrow> e = LimiterExit \<and> cw_heap w' = cw_heap (freshWorld selfUnionNodes [])
    | OutOfFuel \<Rightarrow> True"
    using self_union_never_returns [of "freshWorld selfUnionNodes []" lim n]
    by (cases "clone_TypeId lim defaultFlags n 0 (freshWorld selfUnionNodes [])")
       (simp_all add: freshWorld_def)
  have c: "resultOf (clone_TypeId countingLimiter (defaultFlags\<lparr>LuauCloneCyclicUnions := True\<rparr>) 4 0
               (freshWorld listNodes [])) =
     Some (3, [UnionTypeV [1, 2],
               TableTypeV (emptyTable\<lparr>props := [(''next'', plainProperty 0)]\<rparr>),
               PrimitiveTypeV PrimNil,
               UnionTypeV [4, 5],
               TableTypeV (emptyTable\<lparr>props := [(''next'', plainProperty 3)]\<rparr>),
               PrimitiveTypeV PrimNil])"
    unfolding four by (simp add: clone_eval listNodes_def resultOf_def)
  show ?thesis using a b c by simp
qed









end
